theory Spec2Isabelle
  imports Complex_Main
begin

section \<open>Data model\<close>

text \<open>
  Python values that converters, defaults and calls produce. \<open>NoValue\<close> is the class
  object \<^verbatim>\<open>NoValue\<close> of \<^verbatim>\<open>auto_argparser.py\<close>, the "no value" sentinel; it is distinct
  from \<open>VNone\<close> (Python's \<^verbatim>\<open>None\<close>). Strings are lists of characters. A float is kept as
  the exact decimal value its literal denotes (the rounding to binary64 is not part of
  the model). \<open>VDateparser s\<close> stands for whatever \<^verbatim>\<open>dateparser.parse(s)\<close> returns, and
  \<open>VInstance c kw\<close> for the instance an attrs class \<open>c\<close> builds from the fields \<open>kw\<close>.
\<close>

datatype pyval =
    NoValue
  | VNone
  | VBool bool
  | VInt int
  | VFloat rat
  | VFloatInf bool
  | VFloatNan
  | VStr string
  | VList "pyval list"
  | VSet "pyval list"
  | VTuple "pyval list"
  | VDict "(pyval \<times> pyval) list"
  | VDateparser string
  | VInstance string "(string \<times> pyval) list"

text \<open>
  Type annotations, by the shape \<^verbatim>\<open>get_appropriate_type_converter\<close> dispatches on.
  \<open>TAttrs c args annotations defaults\<close> is an attrs class (\<^verbatim>\<open>attr.has\<close> holds of it) with
  the parameters of its generated \<^verbatim>\<open>__init__\<close> after \<^verbatim>\<open>self\<close>, their annotations and
  the defaults of the trailing parameters. \<open>TClass c\<close> is any other class or object
  used as an annotation.
\<close>

datatype ty =
    TInt
  | TFloat
  | TStr
  | TBool
  | TNoneType
  | TAny
  | TDatetime
  | TIntEnum string
  | TMapping ty ty
  | TDict ty ty
  | TSequence ty
  | TList ty
  | TSet ty
  | TTuple "ty list"
  | TUnion "ty list"
  | TAttrs string "string list" "(string \<times> ty) list" "pyval list option"
  | TClass string

text \<open>
  Exceptions as values. The message of an exception is the list of the pieces of its
  f-string: literal text and interpolated strings are \<open>Text\<close>, interpolated objects keep
  their structure.
\<close>

datatype exc_class =
    AssertionError
  | AutoArgParserError
  | ArgumentTypeError
  | ArgumentError
  | ValueError
  | TypeError
  | KeyError
  | UnequalIterablesError
  | SystemExit int

datatype msg_part =
    Text string
  | TypeList "ty list"
  | StrList "string list"
  | PairList "string list list"
  | NameSet "string list"
  | Number int
  | Indented string "msg_part list"

datatype error = Raise exc_class "msg_part list"

type_synonym 'a result = "error + 'a"

section \<open>String primitives of Python\<close>

definition startswith :: "string \<Rightarrow> string \<Rightarrow> bool" where
  "startswith s p = (take (length p) s = p)"

definition lstrip :: "string \<Rightarrow> string \<Rightarrow> string" where
  "lstrip s chars = dropWhile (\<lambda>c. c \<in> set chars) s"

definition rstrip :: "string \<Rightarrow> string \<Rightarrow> string" where
  "rstrip s chars = rev (dropWhile (\<lambda>c. c \<in> set chars) (rev s))"

definition strip :: "string \<Rightarrow> string \<Rightarrow> string" where
  "strip s chars = rstrip (lstrip s chars) chars"

text \<open>\<^verbatim>\<open>" ".join(xs)\<close>\<close>

fun py_join :: "string \<Rightarrow> string list \<Rightarrow> string" where
  "py_join sep [] = []"
| "py_join sep [x] = x"
| "py_join sep (x # y # ys) = x @ sep @ py_join sep (y # ys)"

text \<open>\<^verbatim>\<open>s.split(',')\<close> on a one-character separator: always at least one part.\<close>

fun py_split :: "char \<Rightarrow> string \<Rightarrow> string list" where
  "py_split sep [] = [[]]"
| "py_split sep (c # cs) =
     (if c = sep then [] # py_split sep cs
      else (case py_split sep cs of p # ps \<Rightarrow> (c # p) # ps | [] \<Rightarrow> [[c]]))"

text \<open>\<^verbatim>\<open>s.lower()\<close> on ASCII letters; every other character is left as it is.\<close>

definition lower_char :: "char \<Rightarrow> char" where
  "lower_char c =
     (let n = (of_char c :: nat) in
      if of_char CHR ''A'' \<le> n \<and> n \<le> of_char CHR ''Z'' then char_of (n + 32) else c)"

definition py_lower :: "string \<Rightarrow> string" where
  "py_lower s = map lower_char s"

section \<open>Bracket-aware splitter (\<^verbatim>\<open>brain_utils/string_utils.py\<close>)\<close>

definition openers :: string where "openers = ''[{(<''"
definition closers :: string where "closers = '']})>''"

text \<open>\<^verbatim>\<open>opener_to_closer = dict(zip(openers, closers))\<close>\<close>

definition opener_to_closer :: "char \<rightharpoonup> char" where
  "opener_to_closer = map_of (zip openers closers)"

text \<open>
  \<^verbatim>\<open>bracketed_split\<close> is a generator: its run is the list of the segments it yields,
  followed by the exception that ends it, if any. A consumer (\<^verbatim>\<open>list\<close>, \<^verbatim>\<open>tuple\<close>, a
  comprehension) sees the segments in order and then the exception.

  The loop state is the dictionary \<open>opening_bracket\<close>, \<open>current_string\<close>, \<open>n_yields\<close>
  and \<open>depth\<close>; \<open>continue\<close> is the recursive call that leaves \<open>current_string\<close> alone.
  The delimiter is a string, compared with each single character.
\<close>

fun bracketed_split_loop ::
  "string \<Rightarrow> string \<Rightarrow> bool \<Rightarrow> nat option \<Rightarrow> string \<Rightarrow>
   (nat \<rightharpoonup> char) \<Rightarrow> string \<Rightarrow> nat \<Rightarrow> nat \<Rightarrow> string list \<times> error option" where
  "bracketed_split_loop string delimiter strip_brackets maxsplit []
      opening_bracket current_string n_yields depth =
     (if depth \<noteq> 0
      then ([], Some (Raise AssertionError
              [Text ''You did not close all brackets in string '', Text string]))
      else ([current_string], None))"
| "bracketed_split_loop string delimiter strip_brackets maxsplit (c # rest)
      opening_bracket current_string n_yields depth =
     (let emit = (\<lambda>ob d.
            if d = 0 \<and> [c] = delimiter \<and>
               (case maxsplit of None \<Rightarrow> True | Some m \<Rightarrow> n_yields < m)
            then (case bracketed_split_loop string delimiter strip_brackets maxsplit rest
                         ob [] (n_yields + 1) d of
                    (ys, e) \<Rightarrow> (current_string # ys, e))
            else bracketed_split_loop string delimiter strip_brackets maxsplit rest
                   ob (current_string @ [c]) n_yields d)
      in
      if c \<in> set openers then
        (let d = depth + 1; ob = opening_bracket(d \<mapsto> c) in
         if strip_brackets \<and> d = 1
         then bracketed_split_loop string delimiter strip_brackets maxsplit rest
                ob current_string n_yields d
         else emit ob d)
      else if c \<in> set closers then
        (if \<not> depth > 0
         then ([], Some (Raise AssertionError
                 [Text ''You exited more brackets that we have entered in string '',
                  Text string]))
         else (case opening_bracket depth of
                 None \<Rightarrow> ([], Some (Raise KeyError []))
               | Some ob_c \<Rightarrow>
                   (case opener_to_closer ob_c of
                      None \<Rightarrow> ([], Some (Raise KeyError []))
                    | Some cl \<Rightarrow>
                        if c \<noteq> cl
                        then ([], Some (Raise AssertionError
                                [Text ''Closing bracket '', Text [c],
                                 Text '' did not match opening bracket '', Text [ob_c],
                                 Text '' in string '', Text string]))
                        else (let d = depth - 1 in
                              if strip_brackets \<and> d = 0
                              then bracketed_split_loop string delimiter strip_brackets
                                     maxsplit rest opening_bracket current_string n_yields d
                              else emit opening_bracket d))))
      else emit opening_bracket depth)"

definition bracketed_split ::
  "string \<Rightarrow> string \<Rightarrow> bool \<Rightarrow> nat option \<Rightarrow> string list \<times> error option" where
  "bracketed_split string delimiter strip_brackets maxsplit =
     bracketed_split_loop string delimiter strip_brackets maxsplit string Map.empty [] 0 0"

text \<open>
  What \<^verbatim>\<open>strip_brackets\<close> removes from one segment, read off the two \<^verbatim>\<open>continue\<close>
  statements: an opener met at depth 0 and a closer met at depth 1. \<open>depth_after\<close>
  is the depth counter after a run of characters.
\<close>

fun depth_after :: "nat \<Rightarrow> string \<Rightarrow> nat" where
  "depth_after d [] = d"
| "depth_after d (c # cs) =
     depth_after (if c \<in> set openers then d + 1 else if c \<in> set closers then d - 1 else d) cs"

fun drop_brackets_from :: "nat \<Rightarrow> string \<Rightarrow> string" where
  "drop_brackets_from d [] = []"
| "drop_brackets_from d (c # cs) =
     (if c \<in> set openers
      then (if d = 0 then drop_brackets_from 1 cs else c # drop_brackets_from (d + 1) cs)
      else if c \<in> set closers
      then (if d = 1 then drop_brackets_from 0 cs else c # drop_brackets_from (d - 1) cs)
      else c # drop_brackets_from d cs)"

definition drop_top_level_brackets :: "string \<Rightarrow> string" where
  "drop_top_level_brackets seg = drop_brackets_from 0 seg"

text \<open>
  The specification's reading of \<^verbatim>\<open>strip_brackets\<close>, in its own words: a bracket pair
  is dropped only when it encloses the entire segment, that is, the segment starts with
  an opener, ends with a closer, and the depth first returns to 0 at its very end.
\<close>

definition spec_strip_enclosing_pair :: "string \<Rightarrow> string" where
  "spec_strip_enclosing_pair seg =
     (if 2 \<le> length seg \<and> hd seg \<in> set openers \<and> last seg \<in> set closers \<and>
         list_all (\<lambda>k. 0 < depth_after 0 (take k seg)) [1..<length seg]
      then butlast (tl seg) else seg)"

definition bracket_free :: "string \<Rightarrow> bool" where
  "bracket_free s = list_all (\<lambda>c. c \<notin> set openers \<and> c \<notin> set closers) s"

section \<open>Sub-namespace router (\<^verbatim>\<open>separate_subargs_under_name\<close>)\<close>

text \<open>
  \<^verbatim>\<open>argstr.startswith('-') and len(argstr.lstrip('-.,0123456789')) != 0\<close>, the test both
  the router and the positional promotion use.
\<close>

definition is_argument_key :: "string \<Rightarrow> bool" where
  "is_argument_key argstr =
     (startswith argstr ''-'' \<and> length (lstrip argstr ''-.,0123456789'') \<noteq> 0)"

text \<open>
  The loop of \<^verbatim>\<open>separate_subargs_under_name\<close>, with its three variables \<open>keepers\<close>,
  \<open>remainders\<close> and \<open>last_was_keeper\<close>; \<^verbatim>\<open>append\<close> adds at the end.
\<close>

fun separate_subargs_loop ::
  "string list \<Rightarrow> string \<Rightarrow> string option \<Rightarrow> string list \<Rightarrow> string list \<Rightarrow> bool \<Rightarrow>
   string list \<times> string list" where
  "separate_subargs_loop [] name short_name keepers remainders last_was_keeper =
     (keepers, remainders)"
| "separate_subargs_loop (argstr # args) name short_name keepers remainders last_was_keeper =
     (if is_argument_key argstr then
        (let full_prefix = ''--'' @ name @ ''.'';
             short_prefix = (case short_name of
                               Some sn \<Rightarrow> Some (''-'' @ sn @ ''.'')
                             | None \<Rightarrow> None)
         in
         if startswith argstr full_prefix then
           separate_subargs_loop args name short_name
             (keepers @ [''--'' @ drop (length full_prefix) argstr]) remainders True
         else
           (case short_prefix of
              Some sp \<Rightarrow>
                if startswith argstr sp then
                  separate_subargs_loop args name short_name
                    (keepers @ [''--'' @ drop (length sp) argstr]) remainders True
                else
                  separate_subargs_loop args name short_name
                    keepers (remainders @ [argstr]) False
            | None \<Rightarrow>
                separate_subargs_loop args name short_name
                  keepers (remainders @ [argstr]) False))
      else if last_was_keeper then
        separate_subargs_loop args name short_name (keepers @ [argstr]) remainders False
      else
        separate_subargs_loop args name short_name keepers (remainders @ [argstr])
          last_was_keeper)"

definition separate_subargs_under_name ::
  "string list \<Rightarrow> string \<Rightarrow> string option \<Rightarrow> string list \<times> string list" where
  "separate_subargs_under_name args name short_name =
     separate_subargs_loop args name short_name [] [] False"

text \<open>
  The routing rule in the specification's words, token by token. A token is a
  sub-namespace key when it is a key token that starts with \<^verbatim>\<open>--<name>.\<close> or with
  \<^verbatim>\<open>-<short_name>.\<close>; it is rewritten by replacing that prefix with \<^verbatim>\<open>--\<close> (the long
  prefix is tried first). The token at position \<open>i\<close> belongs to the sub-namespace when
  it is such a key, or when it is not a key token and the token just before it is such
  a key.
\<close>

definition is_sub_key :: "string \<Rightarrow> string option \<Rightarrow> string \<Rightarrow> bool" where
  "is_sub_key name short_name tok =
     (is_argument_key tok \<and>
      (startswith tok (''--'' @ name @ ''.'') \<or>
       (case short_name of Some sn \<Rightarrow> startswith tok (''-'' @ sn @ ''.'') | None \<Rightarrow> False)))"

definition strip_sub_prefix :: "string \<Rightarrow> string option \<Rightarrow> string \<Rightarrow> string" where
  "strip_sub_prefix name short_name tok =
     (if startswith tok (''--'' @ name @ ''.'')
      then ''--'' @ drop (length (''--'' @ name @ ''.'')) tok
      else ''--'' @ drop (length (''-'' @ (case short_name of Some sn \<Rightarrow> sn | None \<Rightarrow> []) @ ''.'')) tok)"

definition in_sub_namespace :: "string \<Rightarrow> string option \<Rightarrow> string list \<Rightarrow> nat \<Rightarrow> bool" where
  "in_sub_namespace name short_name args i =
     (is_sub_key name short_name (args ! i) \<or>
      (0 < i \<and> \<not> is_argument_key (args ! i) \<and> is_sub_key name short_name (args ! (i - 1))))"

definition routed_sub_tokens :: "string \<Rightarrow> string option \<Rightarrow> string list \<Rightarrow> string list" where
  "routed_sub_tokens name short_name args =
     map (\<lambda>i. if is_sub_key name short_name (args ! i)
              then strip_sub_prefix name short_name (args ! i) else args ! i)
         (filter (in_sub_namespace name short_name args) [0..<length args])"

definition routed_remaining_tokens ::
  "string \<Rightarrow> string option \<Rightarrow> string list \<Rightarrow> string list" where
  "routed_remaining_tokens name short_name args =
     map (\<lambda>i. args ! i)
         (filter (\<lambda>i. \<not> in_sub_namespace name short_name args i) [0..<length args])"

text \<open>
  The same rule seen from inside the loop, where position 0 looks back at the variable
  \<open>last_was_keeper\<close> instead of at a previous token.
\<close>

definition in_sub_namespace_from ::
  "string \<Rightarrow> string option \<Rightarrow> bool \<Rightarrow> string list \<Rightarrow> nat \<Rightarrow> bool" where
  "in_sub_namespace_from name short_name lw args i =
     (is_sub_key name short_name (args ! i) \<or>
      (\<not> is_argument_key (args ! i) \<and>
       (if i = 0 then lw else is_sub_key name short_name (args ! (i - 1)))))"

section \<open>Converters (\<^verbatim>\<open>auto_argparser.py\<close>)\<close>

subsection \<open>The language's own \<^verbatim>\<open>int\<close> and \<^verbatim>\<open>float\<close> on strings\<close>

text \<open>
  Modelled from the spec: the builtins \<^verbatim>\<open>int(str)\<close> and \<^verbatim>\<open>float(str)\<close> are not code of
  the repository ("the language's own parsing for that primitive (fails naturally on
  malformed numeric strings)"). The model is Python's grammar on ASCII text: surrounding
  whitespace is stripped, one optional sign, decimal digits with single underscores
  between digits; for \<^verbatim>\<open>float\<close> also a fraction, an exponent, and \<^verbatim>\<open>inf\<close>, \<^verbatim>\<open>infinity\<close>,
  \<^verbatim>\<open>nan\<close> in any letter case. A malformed string raises \<^verbatim>\<open>ValueError\<close>.
\<close>

definition py_whitespace :: string where
  "py_whitespace = [CHR '' '', CHR 0x09, CHR 0x0A, CHR 0x0B, CHR 0x0C, CHR 0x0D]"

definition is_digit :: "char \<Rightarrow> bool" where
  "is_digit c = (c \<in> set ''0123456789'')"

definition digit_value :: "char \<Rightarrow> nat" where
  "digit_value c = of_char c - of_char CHR ''0''"

text \<open>A non-empty run of digits, with single underscores allowed between digits.\<close>

fun digits_us :: "string \<Rightarrow> bool" where
  "digits_us [] = False"
| "digits_us [c] = is_digit c"
| "digits_us (c # d # cs) =
     (is_digit c \<and> (if d = CHR ''_'' then digits_us cs else digits_us (d # cs)))"

definition nat_of_digits :: "string \<Rightarrow> nat" where
  "nat_of_digits s = foldl (\<lambda>a c. 10 * a + digit_value c) 0 (filter is_digit s)"

definition split_sign :: "string \<Rightarrow> bool \<times> string" where
  "split_sign s =
     (case s of
        c # cs \<Rightarrow> if c = CHR ''-'' then (True, cs) else if c = CHR ''+'' then (False, cs)
                  else (False, s)
      | [] \<Rightarrow> (False, s))"

definition py_int :: "string \<Rightarrow> pyval result" where
  "py_int s =
     (case split_sign (strip s py_whitespace) of
        (neg, u) \<Rightarrow>
          if digits_us u
          then Inr (VInt (if neg then - int (nat_of_digits u) else int (nat_of_digits u)))
          else Inl (Raise ValueError
                 [Text ''invalid literal for int() with base 10: '', Text s]))"

text \<open>
  The decimal value of a well-formed mantissa and exponent; \<open>None\<close> when the text is
  not a decimal literal.
\<close>

definition decimal_value :: "string \<Rightarrow> rat option" where
  "decimal_value u =
     (let is_e = (\<lambda>c. c = CHR ''e'' \<or> c = CHR ''E'');
          m = takeWhile (\<lambda>c. \<not> is_e c) u;
          ex = dropWhile (\<lambda>c. \<not> is_e c) u;
          ip = takeWhile (\<lambda>c. c \<noteq> CHR ''.'') m;
          dot = dropWhile (\<lambda>c. c \<noteq> CHR ''.'') m;
          fp = tl dot;
          mantissa_ok =
            (if dot = [] then digits_us ip
             else (ip = [] \<or> digits_us ip) \<and> (fp = [] \<or> digits_us fp) \<and>
                  (ip \<noteq> [] \<or> fp \<noteq> []));
          exponent_ok = (ex = [] \<or> digits_us (snd (split_sign (tl ex))));
          mant = of_nat (nat_of_digits ip) +
                 of_nat (nat_of_digits fp) / 10 ^ length (filter is_digit fp);
          e = nat_of_digits (snd (split_sign (tl ex)))
      in
      if mantissa_ok \<and> exponent_ok
      then Some (if ex \<noteq> [] \<and> fst (split_sign (tl ex)) then mant / 10 ^ e else mant * 10 ^ e)
      else None)"

definition py_float :: "string \<Rightarrow> pyval result" where
  "py_float s =
     (case split_sign (strip s py_whitespace) of
        (neg, u) \<Rightarrow>
          if py_lower u = ''inf'' \<or> py_lower u = ''infinity'' then Inr (VFloatInf neg)
          else if py_lower u = ''nan'' then Inr VFloatNan
          else (case decimal_value u of
                  Some q \<Rightarrow> Inr (VFloat (if neg then - q else q))
                | None \<Rightarrow> Inl (Raise ValueError
                           [Text ''could not convert string to float: '', Text s])))"

text \<open>\<^verbatim>\<open>str.isnumeric()\<close> on ASCII text: non-empty and all decimal digits.\<close>

definition isnumeric :: "string \<Rightarrow> bool" where
  "isnumeric s = (s \<noteq> [] \<and> list_all is_digit s)"

subsection \<open>\<^verbatim>\<open>str2bool\<close> and \<^verbatim>\<open>parse_string_guessing_type\<close>\<close>

definition str2bool :: "string \<Rightarrow> pyval result" where
  "str2bool bool_argstring =
     (if py_lower bool_argstring \<in> set [''yes'', ''true'', ''t'', ''y'', ''1'']
      then Inr (VBool True)
      else if py_lower bool_argstring \<in> set [''no'', ''false'', ''f'', ''n'', ''0'']
      then Inr (VBool False)
      else Inl (Raise ArgumentTypeError
             [Text (''Boolean value expected, but got '' @ [CHR 0x22]), Text bool_argstring,
              Text ([CHR 0x22] @ ''.'')]))"

definition parse_string_guessing_type :: "string \<Rightarrow> pyval result" where
  "parse_string_guessing_type string0 =
     (let string = strip string0 '' '' in
      if isnumeric string then py_int string
      else if list_all (\<lambda>s. s \<in> set ''1234567890.'') (lstrip string ''-'') then py_float string
      else if py_lower string = ''none'' then Inr VNone
      else if py_lower string \<in> set [''true'', ''false''] then str2bool string
      else if startswith string [CHR 0x27] \<or> startswith string [CHR 0x22]
      then Inr (VStr (strip string [CHR 0x22, CHR 0x27]))
      else Inr (VStr string))"

subsection \<open>Hashing and equality of keys\<close>

text \<open>
  \<^verbatim>\<open>OrderedDict\<close> and \<^verbatim>\<open>set\<close> hash what they store: a list, a set or a dictionary raises
  \<^verbatim>\<open>TypeError\<close> (an attrs instance too, with the default \<^verbatim>\<open>eq=True\<close>). Two keys are the
  same key when Python's \<^verbatim>\<open>==\<close> holds: \<^verbatim>\<open>True == 1 == 1.0\<close>, tuples by components, and a
  NaN equals nothing.
\<close>

fun hashable :: "pyval \<Rightarrow> bool" where
  "hashable (VList xs) = False"
| "hashable (VSet xs) = False"
| "hashable (VDict kvs) = False"
| "hashable (VInstance c kw) = False"
| "hashable (VTuple xs) = list_all hashable xs"
| "hashable v = True"

fun num_of :: "pyval \<Rightarrow> rat option" where
  "num_of (VBool b) = Some (if b then 1 else 0)"
| "num_of (VInt i) = Some (of_int i)"
| "num_of (VFloat q) = Some q"
| "num_of v = None"

fun py_eq :: "pyval \<Rightarrow> pyval \<Rightarrow> bool"
and py_eq_list :: "pyval list \<Rightarrow> pyval list \<Rightarrow> bool" where
  "py_eq a b =
     (case a of
        VTuple xs \<Rightarrow> (case b of VTuple ys \<Rightarrow> py_eq_list xs ys | _ \<Rightarrow> False)
      | VFloatNan \<Rightarrow> False
      | _ \<Rightarrow>
          (case (num_of a, num_of b) of
             (Some x, Some y) \<Rightarrow> x = y
           | (None, None) \<Rightarrow> a = b
           | _ \<Rightarrow> False))"
| "py_eq_list [] ys = (ys = [])"
| "py_eq_list (x # xs) ys =
     (case ys of [] \<Rightarrow> False | y # ys' \<Rightarrow> py_eq x y \<and> py_eq_list xs ys')"

declare py_eq.simps [simp del]

definition unhashable :: error where
  "unhashable = Raise TypeError [Text ''unhashable type'']"

text \<open>\<^verbatim>\<open>d[k] = v\<close> on an ordered dictionary kept as the list of its items.\<close>

fun dict_set :: "(pyval \<times> pyval) list \<Rightarrow> pyval \<Rightarrow> pyval \<Rightarrow> (pyval \<times> pyval) list" where
  "dict_set [] k v = [(k, v)]"
| "dict_set ((k', v') # d) k v =
     (if py_eq k' k then (k', v) # d else (k', v') # dict_set d k v)"

definition ordered_dict :: "(pyval \<times> pyval) list \<Rightarrow> (pyval \<times> pyval) list" where
  "ordered_dict items = foldl (\<lambda>d (k, v). dict_set d k v) [] items"


text \<open>\<^verbatim>\<open>set(xs)\<close>: one element of each class of equal elements, here in first-met order.\<close>

definition set_add :: "pyval list \<Rightarrow> pyval \<Rightarrow> pyval list" where
  "set_add xs x = (if list_ex (\<lambda>y. py_eq y x) xs then xs else xs @ [x])"

subsection \<open>\<^verbatim>\<open>get_appropriate_type_converter\<close>\<close>

text \<open>
  A comprehension over a generator stops at the first exception: the values of the
  items before it are lost and the exception is the result.
\<close>

fun collect :: "'a result list \<Rightarrow> 'a list result" where
  "collect [] = Inr []"
| "collect (Inl e # rs) = Inl e"
| "collect (Inr v # rs) = (case collect rs of Inl e \<Rightarrow> Inl e | Inr vs \<Rightarrow> Inr (v # vs))"

text \<open>
  The items a consumer draws from a generator's run, each mapped by \<open>f\<close> as it is drawn,
  and then the exception that ends the run, if any.
\<close>

definition consume :: "('a \<Rightarrow> 'b result) \<Rightarrow> 'a list \<times> error option \<Rightarrow> 'b list result" where
  "consume f run =
     (case collect (map f (fst run)) of
        Inl e \<Rightarrow> Inl e
      | Inr vs \<Rightarrow> (case snd run of Some e \<Rightarrow> Inl e | None \<Rightarrow> Inr vs))"

definition check_hashable :: "pyval \<Rightarrow> pyval result" where
  "check_hashable v = (if hashable v then Inr v else Inl unhashable)"

text \<open>
  The first statement of \<^verbatim>\<open>convert_mapping_string\<close>: the list \<open>kv_pairs\<close>. The outer
  generator splits at top-level commas and the inner one, drawn to its end for each
  piece, splits the piece at its first top-level colon.
\<close>

definition mapping_kv_pairs :: "string \<Rightarrow> string list list result" where
  "mapping_kv_pairs string_rep =
     consume (\<lambda>substr.
         case bracketed_split substr '':'' True (Some 1) of
           (parts, Some e) \<Rightarrow> Inl e
         | (parts, None) \<Rightarrow> Inr parts)
       (bracketed_split string_rep '','' False None)"

text \<open>
  The resolver returns a closure; here the closure is applied at once:
  \<open>get_appropriate_type_converter t s\<close> is \<^verbatim>\<open>get_appropriate_type_converter(t)(s)\<close>.
  \<open>convert_tuple_items\<close> is the generator of the tuple branch over
  \<^verbatim>\<open>zip(subtypes, string_reps)\<close>, \<open>convert_union_arms\<close> the \<^verbatim>\<open>for\<close> loop of
  \<^verbatim>\<open>convert_union_string\<close> with its bare \<^verbatim>\<open>except: continue\<close>.
\<close>

function (sequential) get_appropriate_type_converter :: "ty \<Rightarrow> string \<Rightarrow> pyval result"
and convert_mapping_string :: "ty \<Rightarrow> ty \<Rightarrow> string \<Rightarrow> pyval result"
and convert_tuple_items :: "ty list \<Rightarrow> string list \<Rightarrow> pyval list result"
and convert_union_arms :: "ty list \<Rightarrow> string \<Rightarrow> pyval option" where
  "get_appropriate_type_converter (TMapping key_type value_type) string_rep =
     convert_mapping_string key_type value_type string_rep"
| "get_appropriate_type_converter (TDict key_type value_type) string_rep =
     convert_mapping_string key_type value_type string_rep"
| "get_appropriate_type_converter (TSequence subtype) string_rep =
     (case consume (get_appropriate_type_converter subtype)
             (bracketed_split string_rep '','' True None) of
        Inl e \<Rightarrow> Inl e
      | Inr vs \<Rightarrow> Inr (VList vs))"
| "get_appropriate_type_converter (TList subtype) string_rep =
     (case consume (get_appropriate_type_converter subtype)
             (bracketed_split string_rep '','' True None) of
        Inl e \<Rightarrow> Inl e
      | Inr vs \<Rightarrow> Inr (VList vs))"
| "get_appropriate_type_converter (TSet subtype) string_rep =
     (case consume (\<lambda>s. case get_appropriate_type_converter subtype s of
                          Inl e \<Rightarrow> Inl e
                        | Inr v \<Rightarrow> check_hashable v)
             (bracketed_split string_rep '','' True None) of
        Inl e \<Rightarrow> Inl e
      | Inr vs \<Rightarrow> Inr (VSet (foldl set_add [] vs)))"
| "get_appropriate_type_converter (TTuple subtypes) string_rep =
     (let string_reps = py_split CHR '','' string_rep in
      if length subtypes \<noteq> length string_reps
      then Inl (Raise AssertionError
             [Text ''The length of type args for this tuple: '', TypeList subtypes,
              Text '' ('', Number (int (length subtypes)),
              Text '') does not match the length of provided values: '',
              StrList string_reps,
              Text '' ('', Number (int (length string_reps)), Text '')''])
      else (case convert_tuple_items subtypes string_reps of
              Inl e \<Rightarrow> Inl e
            | Inr vs \<Rightarrow> Inr (VTuple vs)))"
| "get_appropriate_type_converter (TUnion subtypes) string_rep =
     (if string_rep = ''None'' \<and> TNoneType \<in> set subtypes then Inr VNone
      else (case convert_union_arms subtypes string_rep of
              Some v \<Rightarrow> Inr v
            | None \<Rightarrow> Inl (Raise AutoArgParserError
                       [Text ''Provided value '', Text string_rep,
                        Text ('' doesn'' @ [CHR 0x27] @ ''t seem to match any of the union types: ''),
                        TypeList subtypes])))"
| "get_appropriate_type_converter TDatetime string_rep = Inr (VDateparser string_rep)"
| "get_appropriate_type_converter TBool string_rep = str2bool string_rep"
| "get_appropriate_type_converter TInt string_rep = py_int string_rep"
| "get_appropriate_type_converter TFloat string_rep = py_float string_rep"
| "get_appropriate_type_converter TStr string_rep = Inr (VStr string_rep)"
| "get_appropriate_type_converter (TIntEnum c) string_rep = py_int string_rep"
| "get_appropriate_type_converter TAny string_rep = parse_string_guessing_type string_rep"
| "get_appropriate_type_converter TNoneType string_rep = Inr (VStr string_rep)"
| "get_appropriate_type_converter (TAttrs c a an d) string_rep = Inr (VStr string_rep)"
| "get_appropriate_type_converter (TClass c) string_rep = Inr (VStr string_rep)"
| "convert_mapping_string key_type value_type string_rep =
     (case mapping_kv_pairs string_rep of
        Inl e \<Rightarrow> Inl e
      | Inr kv_pairs \<Rightarrow>
          if \<not> list_all (\<lambda>p. length p = 2) kv_pairs
          then Inl (Raise AutoArgParserError
                 [Text (''We expect a string containing colon-separated pairs like '' @
                        [CHR 0x22] @ ''key1:val1,key2:val2'' @ [CHR 0x22] @ ''.  '' @
                        [CHR 0x0A] @ ''... Got '' @ [CHR 0x22]),
                  Text string_rep, Text ([CHR 0x22] @ '', which splits into ''),
                  PairList kv_pairs])
          else (case collect (map (\<lambda>p.
                         case get_appropriate_type_converter key_type (hd p) of
                           Inl e \<Rightarrow> Inl e
                         | Inr k \<Rightarrow>
                             (case get_appropriate_type_converter value_type (hd (tl p)) of
                                Inl e \<Rightarrow> Inl e
                              | Inr v \<Rightarrow>
                                  (case check_hashable k of
                                     Inl e \<Rightarrow> Inl e
                                   | Inr k' \<Rightarrow> Inr (k', v))))
                       kv_pairs) of
                  Inl e \<Rightarrow> Inl e
                | Inr items \<Rightarrow> Inr (VDict (ordered_dict items))))"
| "convert_tuple_items [] string_reps = Inr []"
| "convert_tuple_items (subtype # subtypes) [] = Inr []"
| "convert_tuple_items (subtype # subtypes) (s # string_reps) =
     (case get_appropriate_type_converter subtype s of
        Inl e \<Rightarrow> Inl e
      | Inr v \<Rightarrow>
          (case convert_tuple_items subtypes string_reps of
             Inl e \<Rightarrow> Inl e
           | Inr vs \<Rightarrow> Inr (v # vs)))"
| "convert_union_arms [] string_rep = None"
| "convert_union_arms (subtype # subtypes) string_rep =
     (case get_appropriate_type_converter subtype string_rep of
        Inr v \<Rightarrow> Some v
      | Inl e \<Rightarrow> convert_union_arms subtypes string_rep)"
  by pat_completeness auto

termination
  by (relation "measure (\<lambda>x. case x of
         Inl (Inl (t, s)) \<Rightarrow> 2 * size t
       | Inl (Inr (k, v, s)) \<Rightarrow> 2 * (size k + size v) + 1
       | Inr (Inl (ts, ss)) \<Rightarrow> 2 * size_list size ts + 1
       | Inr (Inr (ts, s)) \<Rightarrow> 2 * size_list size ts + 1)")
     auto




text \<open>
  A plain decimal literal over the characters the float branch of
  \<^verbatim>\<open>parse_string_guessing_type\<close> lets through: at most one leading minus sign, then
  digits with at most one \<^verbatim>\<open>.\<close> and at least one digit.
\<close>

definition plain_decimal :: "string \<Rightarrow> bool" where
  "plain_decimal t =
     (let body = (case t of c # cs \<Rightarrow> if c = CHR ''-'' then cs else t | [] \<Rightarrow> t) in
      list_all (\<lambda>c. c \<in> set ''1234567890.'') body \<and>
      length (filter (\<lambda>c. c = CHR ''.'') body) \<le> 1 \<and>
      list_ex is_digit body)"

section \<open>The parser (\<^verbatim>\<open>AutoArgParser\<close>)\<close>

subsection \<open>Dictionaries with string keys\<close>

text \<open>
  A Python dictionary with string keys is the list of its items in insertion order;
  \<^verbatim>\<open>d[k] = v\<close> replaces the value of an existing key in place and appends a new key.
\<close>

fun kw_set :: "(string \<times> 'v) list \<Rightarrow> string \<Rightarrow> 'v \<Rightarrow> (string \<times> 'v) list" where
  "kw_set [] k v = [(k, v)]"
| "kw_set ((k', v') # d) k v = (if k' = k then (k', v) # d else (k', v') # kw_set d k v)"

text \<open>\<^verbatim>\<open>d.update(other)\<close>\<close>

definition kw_update :: "(string \<times> 'v) list \<Rightarrow> (string \<times> 'v) list \<Rightarrow> (string \<times> 'v) list" where
  "kw_update d other = foldl (\<lambda>d kv. kw_set d (fst kv) (snd kv)) d other"

subsection \<open>Callables and argument descriptors\<close>

text \<open>\<^verbatim>\<open>ArgSpec = namedtuple('ArgSpec', ['name', 'type', 'default', 'doc'])\<close>; a missing
  type or doc is \<open>None\<close> here (\<^verbatim>\<open>NoValue\<close> in the source), a missing default is the value
  \<open>NoValue\<close>.\<close>

record argspec =
  spec_name :: string
  spec_type :: "ty option"
  spec_default :: pyval
  spec_doc :: "string option"

text \<open>The fields of \<^verbatim>\<open>inspect.getfullargspec(function)\<close> that the parser reads.\<close>

record fullargspec =
  fa_args :: "string list"
  fa_varkw :: "string option"
  fa_defaults :: "pyval list option"
  fa_annotations :: "(string \<times> ty) list"

text \<open>
  A callable: its \<^verbatim>\<open>__name__\<close>, its \<^verbatim>\<open>__doc__\<close>, its full argument specification,
  whether \<^verbatim>\<open>inspect.ismethod\<close> or \<^verbatim>\<open>inspect.isclass\<close> holds of it, and what calling it
  with keyword arguments returns or raises.
\<close>

record callable =
  fn_name :: string
  fn_doc :: "string option"
  fn_spec :: fullargspec
  fn_ismethod :: bool
  fn_isclass :: bool
  fn_call :: "(string \<times> pyval) list \<Rightarrow> pyval result"

text \<open>
  \<^verbatim>\<open>parse_docstring\<close>: a line matches
  \<^verbatim>\<open> *:param ([a-zA-Z0-9_]*)( *)(.*?):( *)(.*)\<close> from its start when, after leading
  spaces, it reads \<^verbatim>\<open>:param \<close>, a name, and later a colon; group 1 is the name and
  group 5 the text after the first such colon, without its leading spaces. A later line
  for the same name replaces the earlier one.
\<close>

definition is_name_char :: "char \<Rightarrow> bool" where
  "is_name_char c =
     (let n = (of_char c :: nat) in
      (of_char CHR ''a'' \<le> n \<and> n \<le> of_char CHR ''z'') \<or>
      (of_char CHR ''A'' \<le> n \<and> n \<le> of_char CHR ''Z'') \<or>
      (of_char CHR ''0'' \<le> n \<and> n \<le> of_char CHR ''9'') \<or> c = CHR ''_'')"

definition match_param_line :: "string \<Rightarrow> (string \<times> string) option" where
  "match_param_line line =
     (let l = dropWhile (\<lambda>c. c = CHR '' '') line in
      if startswith l '':param '' then
        (let rest = drop (length '':param '') l;
             nm = takeWhile is_name_char rest;
             after = dropWhile is_name_char rest
         in if CHR '':'' \<in> set after
            then Some (nm, lstrip (tl (dropWhile (\<lambda>c. c \<noteq> CHR '':'') after)) '' '')
            else None)
      else None)"

definition parse_docstring :: "string \<Rightarrow> (string \<times> string) list" where
  "parse_docstring docstring =
     foldl (\<lambda>d line. case match_param_line line of
                        Some (k, v) \<Rightarrow> kw_set d k v
                      | None \<Rightarrow> d)
       [] (py_split CHR 0x0A docstring)"

subsection \<open>Construction\<close>

text \<open>
  The parser object. Only the token-list form of the arguments is modelled, and the
  console report of a call (\<^verbatim>\<open>print_report\<close>, \<^verbatim>\<open>return_converter\<close>) is left out.
\<close>

record parser =
  self_function :: callable
  self_short_names :: "(string \<times> string) list"
  self_arg_converters :: "(string \<times> (string \<Rightarrow> pyval result)) list"
  self_raise_deep_exceptions :: bool
  self_args :: "argspec list"

text \<open>\<^verbatim>\<open>zip_equal\<close> raises when the two sequences differ in length.\<close>

definition zip_equal :: "'a list \<Rightarrow> 'b list \<Rightarrow> ('a \<times> 'b) list result" where
  "zip_equal xs ys =
     (if length xs = length ys then Inr (zip xs ys)
      else Inl (Raise UnequalIterablesError [Text ''Iterables have different lengths'']))"

text \<open>One \<^verbatim>\<open>ArgSpec(...)\<close> of the list comprehension in \<^verbatim>\<open>__init__\<close>.\<close>

definition make_argspec ::
  "fullargspec \<Rightarrow> (string \<times> pyval) list option \<Rightarrow> (string \<times> string) list \<Rightarrow>
   string \<times> pyval \<Rightarrow> argspec" where
  "make_argspec spec default_overrides arg_docs p =
     \<lparr>spec_name = fst p,
      spec_type = map_of (fa_annotations spec) (fst p),
      spec_default =
        (case default_overrides of
           None \<Rightarrow> snd p
         | Some ov \<Rightarrow> (case map_of ov (fst p) of None \<Rightarrow> snd p | Some d \<Rightarrow> d)),
      spec_doc = map_of arg_docs (fst p)\<rparr>"

text \<open>
  \<^verbatim>\<open>AutoArgParser.__init__\<close>. The two assertions run only when the callable has no
  \<^verbatim>\<open>**kwargs\<close>, and only for \<^verbatim>\<open>short_names\<close> and \<^verbatim>\<open>arg_converters\<close>.
\<close>

definition AutoArgParser ::
  "callable \<Rightarrow> (string \<times> (string \<Rightarrow> pyval result)) list option \<Rightarrow>
   (string \<times> pyval) list option \<Rightarrow> (string \<times> string) list option \<Rightarrow> bool \<Rightarrow>
   parser result" where
  "AutoArgParser function arg_converters default_overrides short_names raise_deep_exceptions =
     (let spec = fn_spec function;
          short_names_ok =
            (case short_names of
               None \<Rightarrow> True
             | Some sn \<Rightarrow> set (map fst sn) \<subseteq> set (fa_args spec));
          arg_converters_ok =
            (case arg_converters of
               None \<Rightarrow> True
             | Some ac \<Rightarrow> set (map fst ac) \<subseteq> set (fa_args spec))
      in
      if fa_varkw spec = None \<and> \<not> short_names_ok then
        Inl (Raise AssertionError
          [Text ''Short names '',
           NameSet (filter (\<lambda>k. k \<notin> set (fa_args spec))
                      (case short_names of Some sn \<Rightarrow> map fst sn | None \<Rightarrow> [])),
           Text '' do not exist in the list of args to function '', Text (fn_name function)])
      else if fa_varkw spec = None \<and> \<not> arg_converters_ok then
        Inl (Raise AssertionError
          [Text ''Arg converters names '',
           NameSet (filter (\<lambda>k. k \<notin> set (fa_args spec))
                      (case arg_converters of Some ac \<Rightarrow> map fst ac | None \<Rightarrow> [])),
           Text '' do not exist in the list of args to function '', Text (fn_name function)])
      else
        (let arg_docs = (case fn_doc function of
                           Some d \<Rightarrow> parse_docstring d
                         | None \<Rightarrow> []);
             defaults_list =
               (case fa_defaults spec of
                  None \<Rightarrow> replicate (length (fa_args spec)) NoValue
                | Some ds \<Rightarrow> replicate (length (fa_args spec) - length ds) NoValue @ ds)
         in
         case zip_equal (fa_args spec) defaults_list of
           Inl e \<Rightarrow> Inl e
         | Inr pairs \<Rightarrow>
             (let argspecs = map (make_argspec spec default_overrides arg_docs) pairs
              in Inr \<lparr>self_function = function,
                      self_short_names = (case short_names of None \<Rightarrow> [] | Some sn \<Rightarrow> sn),
                      self_arg_converters =
                        (case arg_converters of None \<Rightarrow> [] | Some ac \<Rightarrow> ac),
                      self_raise_deep_exceptions = raise_deep_exceptions,
                      self_args = (if fn_ismethod function \<or> fn_isclass function
                                   then drop 1 argspecs else argspecs)\<rparr>)))"

text \<open>The function \<^verbatim>\<open>compute_a_minus_b(a: float, b: float)\<close> of the tests, with its body
  left open: the parser never looks inside.\<close>

definition compute_a_minus_b :: callable where
  "compute_a_minus_b =
     \<lparr>fn_name = ''compute_a_minus_b'', fn_doc = None,
      fn_spec = \<lparr>fa_args = [''a'', ''b''], fa_varkw = None, fa_defaults = None,
                 fa_annotations = [(''a'', TFloat), (''b'', TFloat), (''return'', TFloat)]\<rparr>,
      fn_ismethod = False, fn_isclass = False,
      fn_call = (\<lambda>kwargs. Inr (VDict (map (\<lambda>(k, v). (VStr k, v)) kwargs)))\<rparr>"

subsection \<open>The flag-parsing primitive\<close>

text \<open>
  Modelled from the spec: the flag-parsing primitive (Python's \<^verbatim>\<open>argparse\<close>) is a library
  outside the repository, "a library that tokenizes a flat list of \<^verbatim>\<open>--name value\<close> /
  \<^verbatim>\<open>--name=value\<close> tokens into a namespace, supports \<^verbatim>\<open>--help\<close>, and can report
  unconsumed tokens". The model keeps what the parser relies on: flags registered under
  their exact option strings (a second registration of an option string is refused),
  \<^verbatim>\<open>store_true\<close> flags that take no value and value flags with a \<^verbatim>\<open>type\<close> function, the
  forms \<^verbatim>\<open>--name=value\<close> and \<^verbatim>\<open>--name value\<close>, \<^verbatim>\<open>-h\<close>/\<^verbatim>\<open>--help\<close> exiting with code 0,
  every other rejection exiting with code 2 and a diagnostic, and unrecognised tokens
  handed back by \<^verbatim>\<open>parse_known_args\<close> and rejected by \<^verbatim>\<open>parse_args\<close>. The namespace
  is the list of destinations with their values, in registration order. Abbreviated
  option names, \<^verbatim>\<open>--\<close> and the usage text are not modelled.
\<close>

datatype action = StoreTrue | Store "string \<Rightarrow> pyval result"

record flag =
  option_strings :: "string list"
  dest :: string
  flag_default :: pyval
  flag_action :: action
  flag_help :: "string option"

definition add_argument ::
  "flag list \<Rightarrow> string list \<Rightarrow> string \<Rightarrow> pyval \<Rightarrow> action \<Rightarrow> string option \<Rightarrow>
   flag list result" where
  "add_argument parser opts d dflt act hlp =
     (if list_ex (\<lambda>opt. opt \<in> set [''-h'', ''--help''] \<or>
                        list_ex (\<lambda>f. opt \<in> set (option_strings f)) parser) opts
      then Inl (Raise ArgumentError [Text ''conflicting option string'', StrList opts])
      else Inr (parser @ [\<lparr>option_strings = opts, dest = d, flag_default = dflt,
                           flag_action = act, flag_help = hlp\<rparr>]))"

definition prim_exit :: "msg_part list \<Rightarrow> error" where
  "prim_exit diagnostic = Raise (SystemExit 2) diagnostic"

text \<open>
  The \<^verbatim>\<open>type\<close> function of a flag applied to a value: an \<^verbatim>\<open>ArgumentTypeError\<close> becomes
  the diagnostic with its message, a \<^verbatim>\<open>TypeError\<close> or \<^verbatim>\<open>ValueError\<close> the diagnostic
  "invalid value", and any other exception passes through.
\<close>

definition apply_type :: "flag \<Rightarrow> (string \<Rightarrow> pyval result) \<Rightarrow> string \<Rightarrow> pyval result" where
  "apply_type f conv v =
     (case conv v of
        Inr x \<Rightarrow> Inr x
      | Inl (Raise cls msg) \<Rightarrow>
          (let arg = [Text ''argument '', Text (py_join ''/'' (option_strings f)), Text '': '']
           in if cls = ArgumentTypeError then Inl (prim_exit (arg @ msg))
              else if cls = TypeError \<or> cls = ValueError
              then Inl (prim_exit (arg @ [Text ''invalid value: '', Text v]))
              else Inl (Raise cls msg)))"

text \<open>A token that can serve as the value of a preceding flag: not a flag itself,
  where a negative number counts as a value.\<close>

definition negative_number :: "string \<Rightarrow> bool" where
  "negative_number v =
     (case v of
        c # w \<Rightarrow>
          c = CHR ''-'' \<and>
          (let ip = takeWhile is_digit w; rest = dropWhile is_digit w in
           (rest = [] \<and> ip \<noteq> []) \<or>
           (rest \<noteq> [] \<and> hd rest = CHR ''.'' \<and> tl rest \<noteq> [] \<and> list_all is_digit (tl rest)))
      | [] \<Rightarrow> False)"

definition value_token :: "string \<Rightarrow> bool" where
  "value_token v =
     (\<not> startswith v ''-'' \<or> v = ''-'' \<or> negative_number v \<or> CHR '' '' \<in> set v)"

definition find_flag :: "flag list \<Rightarrow> string \<Rightarrow> flag option" where
  "find_flag parser opt = find (\<lambda>f. opt \<in> set (option_strings f)) parser"

text \<open>
  The pass over the tokens. The state is the namespace, the destinations seen so far
  and the unrecognised tokens.
\<close>

fun consume_tokens ::
  "flag list \<Rightarrow> string list \<Rightarrow> (string \<times> pyval) list \<Rightarrow> string list \<Rightarrow> string list \<Rightarrow>
   ((string \<times> pyval) list \<times> string list \<times> string list) result" where
  "consume_tokens parser [] namespace seen extras = Inr (namespace, seen, extras)"
| "consume_tokens parser (tok # rest) namespace seen extras =
     (if tok = ''-h'' \<or> tok = ''--help'' then Inl (Raise (SystemExit 0) [Text ''help''])
      else
        (case find_flag parser tok of
           Some f \<Rightarrow>
             (case flag_action f of
                StoreTrue \<Rightarrow>
                  consume_tokens parser rest (kw_set namespace (dest f) (VBool True))
                    (dest f # seen) extras
              | Store conv \<Rightarrow>
                  (case rest of
                     v # rest' \<Rightarrow>
                       if value_token v then
                         (case apply_type f conv v of
                            Inl e \<Rightarrow> Inl e
                          | Inr x \<Rightarrow>
                              consume_tokens parser rest' (kw_set namespace (dest f) x)
                                (dest f # seen) extras)
                       else Inl (prim_exit [Text ''argument '', Text tok,
                                            Text '': expected one argument''])
                   | [] \<Rightarrow> Inl (prim_exit [Text ''argument '', Text tok,
                                           Text '': expected one argument''])))
         | None \<Rightarrow>
             (let key = takeWhile (\<lambda>c. c \<noteq> CHR ''='') tok;
                  explicit = drop (length key + 1) tok
              in
              if CHR ''='' \<in> set tok then
                (case find_flag parser key of
                   Some f \<Rightarrow>
                     (case flag_action f of
                        StoreTrue \<Rightarrow>
                          Inl (prim_exit [Text ''argument '', Text key,
                                          Text '': ignored explicit argument '', Text explicit])
                      | Store conv \<Rightarrow>
                          (case apply_type f conv explicit of
                             Inl e \<Rightarrow> Inl e
                           | Inr x \<Rightarrow>
                               consume_tokens parser rest (kw_set namespace (dest f) x)
                                 (dest f # seen) extras))
                 | None \<Rightarrow> consume_tokens parser rest namespace seen (extras @ [tok]))
              else consume_tokens parser rest namespace seen (extras @ [tok]))))"

text \<open>A string default of a value flag that was not given goes through the flag's
  \<^verbatim>\<open>type\<close> function.\<close>

fun convert_defaults ::
  "flag list \<Rightarrow> string list \<Rightarrow> (string \<times> pyval) list \<Rightarrow> (string \<times> pyval) list result" where
  "convert_defaults [] seen namespace = Inr namespace"
| "convert_defaults (f # fs) seen namespace =
     (case (flag_action f, flag_default f) of
        (Store conv, VStr s) \<Rightarrow>
          if dest f \<in> set seen then convert_defaults fs seen namespace
          else (case apply_type f conv s of
                  Inl e \<Rightarrow> Inl e
                | Inr x \<Rightarrow> convert_defaults fs seen (kw_set namespace (dest f) x))
      | _ \<Rightarrow> convert_defaults fs seen namespace)"

definition parse_known_args ::
  "flag list \<Rightarrow> string list \<Rightarrow> ((string \<times> pyval) list \<times> string list) result" where
  "parse_known_args parser tokens =
     (case consume_tokens parser tokens (map (\<lambda>f. (dest f, flag_default f)) parser) [] [] of
        Inl e \<Rightarrow> Inl e
      | Inr (namespace, seen, extras) \<Rightarrow>
          (case convert_defaults parser seen namespace of
             Inl e \<Rightarrow> Inl e
           | Inr namespace' \<Rightarrow> Inr (namespace', extras)))"

definition parse_args :: "flag list \<Rightarrow> string list \<Rightarrow> (string \<times> pyval) list result" where
  "parse_args parser tokens =
     (case parse_known_args parser tokens of
        Inl e \<Rightarrow> Inl e
      | Inr (namespace, extras) \<Rightarrow>
          if extras \<noteq> []
          then Inl (prim_exit [Text ''unrecognized arguments: '', Text (py_join '' '' extras)])
          else Inr namespace)"

subsection \<open>\<^verbatim>\<open>_add_arg_to_parser\<close>\<close>

text \<open>\<^verbatim>\<open>type(default)\<close>, as an annotation.\<close>

fun type_of :: "pyval \<Rightarrow> ty" where
  "type_of NoValue = TClass ''type''"
| "type_of VNone = TNoneType"
| "type_of (VBool b) = TBool"
| "type_of (VInt i) = TInt"
| "type_of (VFloat q) = TFloat"
| "type_of (VFloatInf b) = TFloat"
| "type_of VFloatNan = TFloat"
| "type_of (VStr s) = TStr"
| "type_of (VList xs) = TClass ''list''"
| "type_of (VSet xs) = TClass ''set''"
| "type_of (VTuple xs) = TClass ''tuple''"
| "type_of (VDict kvs) = TClass ''dict''"
| "type_of (VDateparser s) = TDatetime"
| "type_of (VInstance c kw) = TClass c"

text \<open>
  The loop that looks for a use of the argument as a bare flag; \<^verbatim>\<open>break\<close> is the answer
  \<open>True\<close>.
\<close>

fun is_flag_loop :: "string list \<Rightarrow> string \<Rightarrow> string option \<Rightarrow> bool" where
  "is_flag_loop [] arg_name short_name = False"
| "is_flag_loop (argstr # rest) arg_name short_name =
     (if ((CHR ''='' \<notin> set argstr \<and> lstrip argstr ''-'' = arg_name) \<or>
          (case short_name of Some sn \<Rightarrow> lstrip argstr ''-'' = sn | None \<Rightarrow> False)) \<and>
         (rest = [] \<or> startswith (hd rest) ''-'')
      then True
      else is_flag_loop rest arg_name short_name)"

definition add_arg_to_parser ::
  "flag list \<Rightarrow> string list \<Rightarrow> string \<Rightarrow> ty option \<Rightarrow> string option \<Rightarrow> pyval \<Rightarrow>
   (string \<Rightarrow> pyval result) option \<Rightarrow> string option \<Rightarrow> flag list result" where
  "add_arg_to_parser parser arg_strings arg_name arg_type arg_doc dflt type_converter short_name =
     (let opts = (case short_name of Some sn \<Rightarrow> [''-'' @ sn] | None \<Rightarrow> []) @
                 [''--'' @ arg_name];
          arg_type_guess =
            (case arg_type of
               Some t \<Rightarrow> Some t
             | None \<Rightarrow> if dflt \<noteq> NoValue then Some (type_of dflt) else None);
          is_flag = (arg_type_guess = Some TBool \<and> is_flag_loop arg_strings arg_name short_name);
          type_conv =
            (case type_converter of
               Some conv \<Rightarrow> conv
             | None \<Rightarrow>
                 (case arg_type_guess of
                    Some t \<Rightarrow> get_appropriate_type_converter t
                  | None \<Rightarrow> parse_string_guessing_type))
      in add_argument parser opts arg_name dflt
           (if is_flag then StoreTrue else Store type_conv) arg_doc)"

subsection \<open>Parsing and calling\<close>

text \<open>
  The positional promotion at the head of \<^verbatim>\<open>parse_arg_string_and_remaining\<close>: the loop
  over \<^verbatim>\<open>zip(arg_strings, names)\<close> that rewrites a token in place and stops at the first
  argument key.
\<close>

fun insert_names :: "string list \<Rightarrow> string list \<Rightarrow> string list" where
  "insert_names [] arg_strings = arg_strings"
| "insert_names (arg_name # names) [] = []"
| "insert_names (arg_name # names) (argstr # arg_strings) =
     (if is_argument_key argstr then argstr # arg_strings
      else (''--'' @ arg_name @ ''='' @ argstr) # insert_names names arg_strings)"

text \<open>
  An attrs class as a callable: \<^verbatim>\<open>__init__(self, ...)\<close> binds each field to the keyword
  given, else to its default, and the call returns the instance. A keyword that is
  not a field, or a field without a value, is a \<^verbatim>\<open>TypeError\<close>.
\<close>

definition attrs_init ::
  "string \<Rightarrow> string list \<Rightarrow> pyval list option \<Rightarrow> (string \<times> pyval) list \<Rightarrow> pyval result" where
  "attrs_init c field_names dflts kwargs =
     (let ds = (case dflts of None \<Rightarrow> [] | Some ds \<Rightarrow> ds);
          aligned = replicate (length field_names - length ds) NoValue @ ds
      in
      if list_ex (\<lambda>k. k \<notin> set field_names) (map fst kwargs)
      then Inl (Raise TypeError [Text ''__init__() got an unexpected keyword argument''])
      else
        (case collect (map (\<lambda>(fld, d).
                  case map_of kwargs fld of
                    Some v \<Rightarrow> Inr (fld, v)
                  | None \<Rightarrow>
                      if d \<noteq> NoValue then Inr (fld, d)
                      else Inl (Raise TypeError
                             [Text ''__init__() missing required argument: '', Text fld]))
                (zip field_names aligned)) of
           Inl e \<Rightarrow> Inl e
         | Inr kw \<Rightarrow> Inr (VInstance c kw)))"

definition attrs_callable ::
  "string \<Rightarrow> string list \<Rightarrow> (string \<times> ty) list \<Rightarrow> pyval list option \<Rightarrow> callable" where
  "attrs_callable c field_names anns dflts =
     \<lparr>fn_name = c, fn_doc = None,
      fn_spec = \<lparr>fa_args = ''self'' # field_names, fa_varkw = None, fa_defaults = dflts,
                 fa_annotations = anns\<rparr>,
      fn_ismethod = False, fn_isclass = True,
      fn_call = attrs_init c field_names dflts\<rparr>"

text \<open>\<^verbatim>\<open>attr.has(argspec.type)\<close>, with the description of the class when it holds.\<close>

fun attrs_class ::
  "ty option \<Rightarrow> (string \<times> string list \<times> (string \<times> ty) list \<times> pyval list option) option" where
  "attrs_class (Some (TAttrs c field_names anns dflts)) = Some (c, field_names, anns, dflts)"
| "attrs_class t = None"

text \<open>The size of the largest declared type among argument descriptors: what decreases
  when the parser recurses into an attrs class.\<close>

definition type_rank :: "argspec list \<Rightarrow> nat" where
  "type_rank specs =
     Max (insert 0 ((\<lambda>a. case spec_type a of Some t \<Rightarrow> size t | None \<Rightarrow> 0) ` set specs))"

lemma type_rank_ge: "a \<in> set specs \<Longrightarrow> spec_type a = Some t \<Longrightarrow> size t \<le> type_rank specs"
  unfolding type_rank_def by (rule Max_ge) (auto simp: image_iff intro!: bexI[of _ a])

lemma type_rank_Cons_le: "type_rank specs \<le> type_rank (a # specs)"
  unfolding type_rank_def by (rule Max_mono) auto

lemma type_rank_less:
  assumes "0 < n" "\<And>a t. a \<in> set specs \<Longrightarrow> spec_type a = Some t \<Longrightarrow> size t < n"
  shows "type_rank specs < n"
  unfolding type_rank_def using assms by (subst Max_less_iff) (auto split: option.splits)

lemma size_annotation_less:
  "(n, t) \<in> set anns \<Longrightarrow> size t < size (TAttrs c field_names anns dflts)"
proof (induction anns)
  case Nil
  then show ?case by simp
next
  case (Cons a anns)
  then show ?case by (cases a) auto
qed

lemma AutoArgParser_spec_types:
  assumes "AutoArgParser f ac ov sn deep = Inr p" "a \<in> set (self_args p)" "spec_type a = Some t"
  shows "(spec_name a, t) \<in> set (fa_annotations (fn_spec f))"
proof -
  define docs where "docs = (case fn_doc f of Some d \<Rightarrow> parse_docstring d | None \<Rightarrow> [])"
  define dl where "dl = (case fa_defaults (fn_spec f) of
         None \<Rightarrow> replicate (length (fa_args (fn_spec f))) NoValue
       | Some ds \<Rightarrow> replicate (length (fa_args (fn_spec f)) - length ds) NoValue @ ds)"
  obtain pairs where z: "zip_equal (fa_args (fn_spec f)) dl = Inr pairs"
    using assms(1) unfolding AutoArgParser_def Let_def dl_def
    by (auto split: if_splits sum.splits)
  have "self_args p =
          (if fn_ismethod f \<or> fn_isclass f
           then drop 1 (map (make_argspec (fn_spec f) ov docs) pairs)
           else map (make_argspec (fn_spec f) ov docs) pairs)"
    using assms(1) z unfolding AutoArgParser_def Let_def dl_def docs_def
    by (auto split: if_splits)
  then have "set (self_args p) \<subseteq> set (map (make_argspec (fn_spec f) ov docs) pairs)"
    using set_drop_subset[of 1 "map (make_argspec (fn_spec f) ov docs) pairs"]
    by (simp split: if_splits)
  then obtain q where "a = make_argspec (fn_spec f) ov docs q"
    using assms(2) by auto
  then have "spec_type a = map_of (fa_annotations (fn_spec f)) (spec_name a)"
    by (simp add: make_argspec_def)
  then have "map_of (fa_annotations (fn_spec f)) (spec_name a) = Some t"
    using assms(3) by simp
  then show ?thesis by (rule map_of_SomeD)
qed

lemma attrs_class_Some:
  "attrs_class t = Some (c, field_names, anns, dflts) \<Longrightarrow>
   t = Some (TAttrs c field_names anns dflts)"
  by (induction t rule: attrs_class.induct) auto

lemma type_rank_sub_parser:
  assumes "attrs_class (spec_type a) = Some (c, field_names, anns, dflts)"
    and "AutoArgParser (attrs_callable c field_names anns dflts) ac ov sn deep = Inr sub_parser"
  shows "type_rank (self_args sub_parser) < type_rank (a # rest)"
proof -
  have t: "spec_type a = Some (TAttrs c field_names anns dflts)"
    using assms(1) by (rule attrs_class_Some)
  have a: "size (TAttrs c field_names anns dflts) \<le> type_rank (a # rest)"
    using t by (intro type_rank_ge[of a]) auto
  have "type_rank (self_args sub_parser) < size (TAttrs c field_names anns dflts)"
  proof (rule type_rank_less)
    show "0 < size (TAttrs c field_names anns dflts)" by simp
  next
    fix a' t' assume "a' \<in> set (self_args sub_parser)" "spec_type a' = Some t'"
    from AutoArgParser_spec_types[OF assms(2) this]
    have "(spec_name a', t') \<in> set anns" by (simp add: attrs_callable_def)
    then show "size t' < size (TAttrs c field_names anns dflts)"
      by (rule size_annotation_less)
  qed
  then show ?thesis using a by simp
qed

lemma type_rank_Cons_cases:
  "type_rank rest < type_rank (a # rest) \<or> type_rank rest = type_rank (a # rest)"
  using type_rank_Cons_le[of rest a] by auto

text \<open>
  \<^verbatim>\<open>parse_arg_string_and_remaining\<close>, the loop over \<^verbatim>\<open>self._args\<close> inside it
  (\<open>register_args\<close>, whose state is the flag parser, \<open>sub_kwargs\<close> and
  \<open>direct_arg_strings\<close>), and \<^verbatim>\<open>call_from_command_line\<close>, which the loop calls on a
  fresh parser for every argument whose declared type is an attrs class.
\<close>

function parse_arg_string_and_remaining ::
  "parser \<Rightarrow> string list \<Rightarrow> bool \<Rightarrow> ((string \<times> pyval) list \<times> string list) result"
and register_args ::
  "parser \<Rightarrow> argspec list \<Rightarrow> string list \<Rightarrow> flag list \<Rightarrow> (string \<times> pyval) list \<Rightarrow>
   string list \<Rightarrow> (flag list \<times> (string \<times> pyval) list \<times> string list) result"
and call_from_command_line :: "parser \<Rightarrow> string list \<Rightarrow> pyval result" where
  "parse_arg_string_and_remaining self arg_strings0 allow_remaining =
     (let arg_strings = insert_names (map spec_name (self_args self)) arg_strings0 in
      case register_args self (self_args self) arg_strings [] [] arg_strings of
        Inl e \<Rightarrow> Inl e
      | Inr (parser, sub_kwargs, direct_arg_strings) \<Rightarrow>
          (case (if allow_remaining then parse_known_args parser direct_arg_strings
                 else (case parse_args parser direct_arg_strings of
                         Inl e \<Rightarrow> Inl e
                       | Inr namespace \<Rightarrow> Inr (namespace, []))) of
             Inl (Raise cls diagnostic) \<Rightarrow>
               (case cls of
                  SystemExit code \<Rightarrow>
                    if code = 0 then Inl (Raise (SystemExit 0) diagnostic)
                    else if self_raise_deep_exceptions self
                    then Inl (Raise AutoArgParserError [Number code])
                    else Inl (Raise AutoArgParserError
                           [Text (''Error when feeding args '' @ [CHR 0x22]),
                            Text (py_join '' '' arg_strings),
                            Text ([CHR 0x22] @ '' to ''),
                            Text (fn_name (self_function self)),
                            Text (''(...):'' @ [CHR 0x0A]),
                            Indented ''.   '' diagnostic,
                            Text ([CHR 0x0A] @ ''.   You can set raise_deep_exceptions=True '' @
                                  ''to help identify the source.'')])
                | _ \<Rightarrow> Inl (Raise cls diagnostic))
           | Inr (namespace, remaining) \<Rightarrow>
               Inr (kw_update (filter (\<lambda>kv. snd kv \<noteq> NoValue) namespace) sub_kwargs,
                    remaining)))"
| "register_args self [] arg_strings parser sub_kwargs direct_arg_strings =
     Inr (parser, sub_kwargs, direct_arg_strings)"
| "register_args self (a # rest) arg_strings parser sub_kwargs direct_arg_strings =
     (case attrs_class (spec_type a) of
        Some (c, field_names, anns, dflts) \<Rightarrow>
          (case separate_subargs_under_name direct_arg_strings (spec_name a)
                  (map_of (self_short_names self) (spec_name a)) of
             (sub_argstrings, direct_arg_strings') \<Rightarrow>
               (case AutoArgParser (attrs_callable c field_names anns dflts) None None None False of
                  Inl e \<Rightarrow> Inl e
                | Inr sub_parser \<Rightarrow>
                    (case call_from_command_line sub_parser sub_argstrings of
                       Inl e \<Rightarrow> Inl e
                     | Inr v \<Rightarrow>
                         register_args self rest arg_strings parser
                           (kw_set sub_kwargs (spec_name a) v) direct_arg_strings')))
      | None \<Rightarrow>
          (case add_arg_to_parser parser arg_strings (spec_name a) (spec_type a) (spec_doc a)
                  (spec_default a) (map_of (self_arg_converters self) (spec_name a))
                  (map_of (self_short_names self) (spec_name a)) of
             Inl e \<Rightarrow> Inl e
           | Inr parser' \<Rightarrow>
               register_args self rest arg_strings parser' sub_kwargs direct_arg_strings))"
| "call_from_command_line self arg_strings =
     (case parse_arg_string_and_remaining self arg_strings False of
        Inl e \<Rightarrow> Inl e
      | Inr (kwargs, remaining) \<Rightarrow> fn_call (self_function self) kwargs)"
  by pat_completeness auto

termination
  by (relation "measures
    [\<lambda>x. case x of
        Inl (self, toks, allow) \<Rightarrow> type_rank (self_args self)
      | Inr (Inl (self, specs, rest)) \<Rightarrow> type_rank specs
      | Inr (Inr (self, toks)) \<Rightarrow> type_rank (self_args self),
     \<lambda>x. case x of
        Inl (self, toks, allow) \<Rightarrow> length (self_args self) + 2
      | Inr (Inl (self, specs, rest)) \<Rightarrow> length specs + 1
      | Inr (Inr (self, toks)) \<Rightarrow> length (self_args self) + 3]")
     (use type_rank_Cons_cases in \<open>auto simp add: type_rank_sub_parser\<close>)

declare parse_arg_string_and_remaining.simps [simp del]
declare call_from_command_line.simps [simp del]

text \<open>The function \<^verbatim>\<open>maybe_negate(number: int, negate: bool = False)\<close> of the tests.\<close>

definition maybe_negate :: callable where
  "maybe_negate =
     \<lparr>fn_name = ''maybe_negate'', fn_doc = None,
      fn_spec = \<lparr>fa_args = [''number'', ''negate''], fa_varkw = None,
                 fa_defaults = Some [VBool False],
                 fa_annotations = [(''number'', TInt), (''negate'', TBool)]\<rparr>,
      fn_ismethod = False, fn_isclass = False,
      fn_call = (\<lambda>kwargs.
        case (map_of kwargs ''number'', map_of kwargs ''negate'') of
          (Some (VInt n), Some (VBool b)) \<Rightarrow> Inr (VInt (if b then - n else n))
        | (Some (VInt n), None) \<Rightarrow> Inr (VInt n)
        | _ \<Rightarrow> Inl (Raise TypeError [Text ''maybe_negate'']))\<rparr>"

text \<open>
  The named form of a list of positional values: value \<open>i\<close> written as
  \<^verbatim>\<open>--<name i>=<value>\<close>, for as many values as there are names.
\<close>

definition named_tokens :: "string list \<Rightarrow> string list \<Rightarrow> string list" where
  "named_tokens names values =
     map (\<lambda>(n, v). ''--'' @ n @ ''='' @ v) (zip names values) @ drop (length names) values"

text \<open>The attrs class \<^verbatim>\<open>Person\<close> and the function
  \<^verbatim>\<open>greet_persion(greeting: str, person: Person)\<close> of the tests.\<close>

definition Person :: ty where
  "Person = TAttrs ''Person'' [''name'', ''age''] [(''name'', TStr), (''age'', TInt)] None"

definition greet_persion :: callable where
  "greet_persion =
     \<lparr>fn_name = ''greet_persion'', fn_doc = None,
      fn_spec = \<lparr>fa_args = [''greeting'', ''person''], fa_varkw = None, fa_defaults = None,
                 fa_annotations = [(''greeting'', TStr), (''person'', Person)]\<rparr>,
      fn_ismethod = False, fn_isclass = False,
      fn_call = (\<lambda>kwargs. Inr (VDict (map (\<lambda>(k, v). (VStr k, v)) kwargs)))\<rparr>"

text \<open>The parser that \<^verbatim>\<open>AutoArgParser(maybe_negate)\<close> constructs.\<close>

definition maybe_negate_parser :: parser where
  "maybe_negate_parser =
     \<lparr>self_function = maybe_negate, self_short_names = [], self_arg_converters = [],
      self_raise_deep_exceptions = False,
      self_args = [\<lparr>spec_name = ''number'', spec_type = Some TInt, spec_default = NoValue,
                     spec_doc = None\<rparr>,
                   \<lparr>spec_name = ''negate'', spec_type = Some TBool,
                     spec_default = VBool False, spec_doc = None\<rparr>]\<rparr>"

section \<open>Properties of the bracket-aware splitter\<close>

lemma depth_after_append: "depth_after d (xs @ ys) = depth_after (depth_after d xs) ys"
  by (induction xs arbitrary: d) auto

lemma drop_brackets_from_append:
  "drop_brackets_from d (xs @ ys) =
   drop_brackets_from d xs @ drop_brackets_from (depth_after d xs) ys"
  by (induction xs arbitrary: d) auto

lemma bracket_free_depth_after: "bracket_free xs \<Longrightarrow> depth_after d xs = d"
  by (induction xs arbitrary: d) (auto simp: bracket_free_def)

lemma bracket_free_drop_brackets_from: "bracket_free xs \<Longrightarrow> drop_brackets_from d xs = xs"
  by (induction xs arbitrary: d) (auto simp: bracket_free_def)

text \<open>
  The loop with \<^verbatim>\<open>strip_brackets\<close> set runs in lock-step with the loop without it: same
  dictionary, counters and depth, and its \<open>current_string\<close> is the other's with the
  top-level brackets dropped.
\<close>

lemma bracketed_split_loop_strip:
  assumes "\<forall>c\<in>set closers. delimiter \<noteq> [c]"
  shows "bracketed_split_loop s delimiter True ms rest ob (drop_brackets_from 0 cn) n
           (depth_after 0 cn) =
    (case bracketed_split_loop s delimiter False ms rest ob cn n (depth_after 0 cn) of
       (ys, e) \<Rightarrow> (map drop_top_level_brackets ys, e))"
proof (induction rest arbitrary: ob cn n)
  case Nil
  then show ?case by (simp add: drop_top_level_brackets_def)
next
  case (Cons c rest)
  define d where "d = depth_after 0 cn"
  define cs where "cs = drop_brackets_from 0 cn"
  define d' where "d' = depth_after 0 (cn @ [c])"
  define cs' where "cs' = drop_brackets_from 0 (cn @ [c])"
  have IH1: "\<And>ob. bracketed_split_loop s delimiter True ms rest ob cs' n d' =
    (case bracketed_split_loop s delimiter False ms rest ob (cn @ [c]) n d' of
       (ys, e) \<Rightarrow> (map drop_top_level_brackets ys, e))"
    unfolding cs'_def d'_def by (rule Cons.IH)
  have IH2: "\<And>ob. bracketed_split_loop s delimiter True ms rest ob [] (n + 1) 0 =
    (case bracketed_split_loop s delimiter False ms rest ob [] (n + 1) 0 of
       (ys, e) \<Rightarrow> (map drop_top_level_brackets ys, e))"
    using Cons.IH[of _ "[]" "n + 1"] by simp
  have d': "d' = (if c \<in> set openers then d + 1 else if c \<in> set closers then d - 1 else d)"
    by (simp add: d'_def d_def depth_after_append)
  have cs': "cs' = (if c \<in> set openers then (if d = 0 then cs else cs @ [c])
                  else if c \<in> set closers then (if d = 1 then cs else cs @ [c])
                  else cs @ [c])"
    by (simp add: cs'_def cs_def d_def drop_brackets_from_append)
  have step: "bracketed_split_loop s delimiter True ms (c # rest) ob cs n d =
    (case bracketed_split_loop s delimiter False ms (c # rest) ob cn n d of
       (ys, e) \<Rightarrow> (map drop_top_level_brackets ys, e))"
  proof (cases "c \<in> set openers")
    case True
    then show ?thesis
      using IH1[of "ob(d + 1 \<mapsto> c)"] by (cases "d = 0") (simp_all add: Let_def d' cs')
  next
    case no: False
    show ?thesis
    proof (cases "c \<in> set closers")
      case True
      then have nd: "[c] \<noteq> delimiter" using assms by auto
      show ?thesis
      proof (cases "d > 0")
        case False
        then show ?thesis using True no by simp
      next
        case pos: True
        show ?thesis
          using True no nd pos IH1[of ob]
          by (cases "d = 1") (auto simp add: Let_def d' cs' split: option.splits)
      qed
    next
      case False
      show ?thesis
      proof (cases "d = 0 \<and> [c] = delimiter \<and> (case ms of None \<Rightarrow> True | Some m \<Rightarrow> n < m)")
        case True
        then show ?thesis
          using False no IH2[of ob]
          by (simp add: Let_def cs_def drop_top_level_brackets_def split: prod.splits)
      next
        case F: False
        have "bracketed_split_loop s delimiter True ms (c # rest) ob cs n d =
              bracketed_split_loop s delimiter True ms rest ob cs' n d'"
          using F False no by (auto simp add: Let_def d' cs')
        moreover have "bracketed_split_loop s delimiter False ms (c # rest) ob cn n d =
              bracketed_split_loop s delimiter False ms rest ob (cn @ [c]) n d'"
          using F False no by (auto simp add: Let_def d' cs')
        ultimately show ?thesis using IH1[of ob] by simp
      qed
    qed
  qed
  then show ?case by (simp add: d_def cs_def)
qed

text \<open>
  Claim C3, as the code has it. With \<^verbatim>\<open>strip_brackets\<close> set, and a delimiter that is not
  a closing bracket, the splitter yields the segments of the run without
  \<^verbatim>\<open>strip_brackets\<close> (and ends with the same exception, if any), each with every
  top-level bracket pair dropped: the opener that takes the depth from 0 to 1 and the
  closer that takes it from 1 to 0, wherever in the segment they stand. A pair in the
  middle of a segment is dropped as well, and only brackets at depth 2 or more are kept.
\<close>

theorem bracketed_split_strip_drops_every_top_level_pair:
  "(delimiter \<notin> set (map (\<lambda>c. [c]) closers) \<longrightarrow>
      bracketed_split s delimiter True ms =
        (case bracketed_split s delimiter False ms of
           (ys, e) \<Rightarrow> (map drop_top_level_brackets ys, e))) \<and>
   (bracket_free pre \<and> bracket_free mid \<and> bracket_free post \<and>
    opn \<in> set openers \<and> cl \<in> set closers \<longrightarrow>
      drop_top_level_brackets (pre @ opn # mid @ cl # post) = pre @ mid @ post) \<and>
   (bracket_free pre \<and> bracket_free mid \<and> bracket_free post \<and>
    opn \<in> set openers \<and> cl \<in> set closers \<and> opn' \<in> set openers \<and> cl' \<in> set closers \<longrightarrow>
      drop_top_level_brackets (opn # pre @ opn' # mid @ cl' # post @ [cl]) =
        pre @ opn' # mid @ cl' # post)"
proof (intro conjI impI)
  assume "delimiter \<notin> set (map (\<lambda>c. [c]) closers)"
  then have "\<forall>c\<in>set closers. delimiter \<noteq> [c]" by auto
  from bracketed_split_loop_strip[OF this, of s ms s Map.empty "[]" 0]
  show "bracketed_split s delimiter True ms =
           (case bracketed_split s delimiter False ms of
              (ys, e) \<Rightarrow> (map drop_top_level_brackets ys, e))"
    by (simp add: bracketed_split_def)
next
  assume "bracket_free pre \<and> bracket_free mid \<and> bracket_free post \<and>
         opn \<in> set openers \<and> cl \<in> set closers"
  moreover have "cl \<in> set closers \<Longrightarrow> cl \<notin> set openers"
    by (auto simp: openers_def closers_def)
  ultimately show "drop_top_level_brackets (pre @ opn # mid @ cl # post) = pre @ mid @ post"
    by (simp add: drop_top_level_brackets_def drop_brackets_from_append
        bracket_free_depth_after bracket_free_drop_brackets_from)
next
  assume "bracket_free pre \<and> bracket_free mid \<and> bracket_free post \<and>
         opn \<in> set openers \<and> cl \<in> set closers \<and>
         opn' \<in> set openers \<and> cl' \<in> set closers"
  moreover have "\<And>x. x \<in> set closers \<Longrightarrow> x \<notin> set openers"
    by (auto simp: openers_def closers_def)
  ultimately show "drop_top_level_brackets (opn # pre @ opn' # mid @ cl' # post @ [cl]) =
           pre @ opn' # mid @ cl' # post"
    by (simp add: drop_top_level_brackets_def drop_brackets_from_append
        bracket_free_depth_after bracket_free_drop_brackets_from depth_after_append)
qed

theorem bracketed_split_strip_drops_every_top_level_pair_witness:
  "'','' \<notin> set (map (\<lambda>c. [c]) closers) \<and>
   bracketed_split ''ab(c,d)e,(f(g))'' '','' False None = ([''ab(c,d)e'', ''(f(g))''], None) \<and>
   bracketed_split ''ab(c,d)e,(f(g))'' '','' True None = ([''abc,de'', ''f(g)''], None) \<and>
   bracket_free ''ab'' \<and> bracket_free ''c,d'' \<and> bracket_free ''e'' \<and>
   CHR ''('' \<in> set openers \<and> CHR '')'' \<in> set closers \<and>
   drop_top_level_brackets ''ab(c,d)e'' = ''abc,de'' \<and>
   drop_top_level_brackets ''(ab(c,d)e)'' = ''ab(c,d)e''"
  using bracketed_split_strip_drops_every_top_level_pair
    [of "'',''" "''ab(c,d)e,(f(g))''" None "''ab''" "''c,d''" "''e''" "CHR ''(''" "CHR '')''"
        "CHR ''(''" "CHR '')''"]
  by (simp add: bracketed_split_def openers_def closers_def opener_to_closer_def Let_def
      bracket_free_def drop_top_level_brackets_def)

theorem bracketed_split_strip_counterexample:
  "bracketed_split ''a(b)c'' '','' True None = ([''abc''], None) \<and>
   map spec_strip_enclosing_pair (fst (bracketed_split ''a(b)c'' '','' False None)) =
     [''a(b)c'']"
  by (simp add: bracketed_split_def openers_def closers_def opener_to_closer_def Let_def
      spec_strip_enclosing_pair_def)

section \<open>Properties of the sub-namespace router\<close>

lemma separate_subargs_loop_step:
  "separate_subargs_loop (a # args) name short_name ks rs lw =
     (if is_sub_key name short_name a
      then separate_subargs_loop args name short_name
             (ks @ [strip_sub_prefix name short_name a]) rs True
      else if \<not> is_argument_key a \<and> lw
      then separate_subargs_loop args name short_name (ks @ [a]) rs False
      else separate_subargs_loop args name short_name ks (rs @ [a]) False)"
  by (cases short_name) (auto simp add: Let_def is_sub_key_def strip_sub_prefix_def)

lemma in_sub_namespace_from_Suc:
  "in_sub_namespace_from name short_name lw (a # args) (Suc i) =
   in_sub_namespace_from name short_name (is_sub_key name short_name a) args i"
  by (cases i) (simp_all add: in_sub_namespace_from_def)

lemma in_sub_namespace_from_0:
  "in_sub_namespace_from name short_name lw (a # args) 0 =
   (is_sub_key name short_name a \<or> (\<not> is_argument_key a \<and> lw))"
  by (simp add: in_sub_namespace_from_def)

lemma in_sub_namespace_from_False:
  "in_sub_namespace_from name short_name False args = in_sub_namespace name short_name args"
  by (rule ext) (auto simp add: in_sub_namespace_from_def in_sub_namespace_def)

lemma separate_subargs_loop_routes:
  "separate_subargs_loop args name short_name ks rs lw =
     (ks @ map (\<lambda>i. if is_sub_key name short_name (args ! i)
                     then strip_sub_prefix name short_name (args ! i) else args ! i)
            (filter (in_sub_namespace_from name short_name lw args) [0..<length args]),
      rs @ map (\<lambda>i. args ! i)
            (filter (\<lambda>i. \<not> in_sub_namespace_from name short_name lw args i)
               [0..<length args]))"
proof (induction args arbitrary: ks rs lw)
  case Nil
  then show ?case by simp
next
  case (Cons a args)
  have upt: "[0..<length (a # args)] = 0 # map Suc [0..<length args]"
    by (simp add: upt_conv_Cons map_Suc_upt del: upt_Suc)
  have notkey: "is_sub_key name short_name a \<Longrightarrow> is_argument_key a"
    by (simp add: is_sub_key_def)
  show ?case
    unfolding upt separate_subargs_loop_step
    using notkey
    by (simp add: Cons.IH filter_map comp_def in_sub_namespace_from_Suc
          in_sub_namespace_from_0 del: upt_Suc)
qed

text \<open>
  Claim C5. \<^verbatim>\<open>separate_subargs_under_name\<close> returns exactly the two lists of the routing
  rule: the tokens that belong to the sub-namespace (each key token matching
  \<^verbatim>\<open>--<name>.<rest>\<close> or \<^verbatim>\<open>-<short_name>.<rest>\<close> rewritten to \<^verbatim>\<open>--<rest>\<close>, and the
  non-key token that immediately follows such a key), and every other token, both in
  the order of the input.
\<close>

theorem separate_subargs_under_name_routes:
  "separate_subargs_under_name args name short_name =
     (routed_sub_tokens name short_name args, routed_remaining_tokens name short_name args)"
  by (simp add: separate_subargs_under_name_def separate_subargs_loop_routes
        routed_sub_tokens_def routed_remaining_tokens_def in_sub_namespace_from_False)

section \<open>Properties of the converters\<close>

subsection \<open>The float branch of the type guesser\<close>

lemma dropWhile_none: "\<forall>c\<in>set xs. \<not> P c \<Longrightarrow> dropWhile P xs = xs"
  by (cases xs) auto

lemma strip_no_chars: "\<forall>c\<in>set t. c \<notin> set chars \<Longrightarrow> strip t chars = t"
  by (simp add: strip_def lstrip_def rstrip_def dropWhile_none)

lemma digits_us_all_digits: "list_all is_digit xs \<Longrightarrow> digits_us xs = (xs \<noteq> [])"
  by (induction xs rule: digits_us.induct) (auto simp: is_digit_def)

lemma digits_us_chars: "digits_us xs \<Longrightarrow> list_all (\<lambda>c. is_digit c \<or> c = CHR ''_'') xs"
  by (induction xs rule: digits_us.induct) (auto split: if_splits)

lemma digits_us_hd: "digits_us xs \<Longrightarrow> xs \<noteq> [] \<and> is_digit (hd xs)"
  by (induction xs rule: digits_us.induct) auto

lemma charset_digit: "c \<in> set ''1234567890.'' \<Longrightarrow> c \<noteq> CHR ''.'' \<Longrightarrow> is_digit c"
  by (auto simp: is_digit_def)

lemma digit_charset: "is_digit c \<Longrightarrow> c \<in> set ''1234567890.'' \<and> c \<noteq> CHR ''.'' \<and> c \<noteq> CHR ''_''"
  by (auto simp: is_digit_def)

lemma charset_not_us: "c \<in> set ''1234567890.'' \<Longrightarrow> c \<noteq> CHR ''_''"
  by auto

lemma decimal_value_plain:
  assumes cs: "list_all (\<lambda>c. c \<in> set ''1234567890.'') b"
    and ok: "decimal_value b \<noteq> None"
  shows "length (filter (\<lambda>c. c = CHR ''.'') b) \<le> 1 \<and> list_ex is_digit b"
proof -
  let ?is_e = "\<lambda>c. c = CHR ''e'' \<or> c = CHR ''E''"
  have "CHR ''e'' \<notin> set ''1234567890.''" "CHR ''E'' \<notin> set ''1234567890.''" by simp_all
  then have noe: "\<forall>c\<in>set b. \<not> ?is_e c" using cs unfolding list_all_iff by blast
  have m: "takeWhile (\<lambda>c. \<not> ?is_e c) b = b" using noe by (simp add: takeWhile_eq_all_conv)
  have ex: "dropWhile (\<lambda>c. \<not> ?is_e c) b = []" using noe by (simp add: dropWhile_eq_Nil_conv)
  define ip where "ip = takeWhile (\<lambda>c. c \<noteq> CHR ''.'') b"
  define dot where "dot = dropWhile (\<lambda>c. c \<noteq> CHR ''.'') b"
  have b: "b = ip @ dot" by (simp add: ip_def dot_def)
  have ipd: "list_all is_digit ip"
  proof -
    have "\<And>c. c \<in> set ip \<Longrightarrow> c \<in> set b \<and> c \<noteq> CHR ''.''"
      unfolding ip_def by (auto dest: set_takeWhileD)
    then show ?thesis using cs charset_digit unfolding list_all_iff by blast
  qed
  have mant: "(if dot = [] then digits_us ip
             else (ip = [] \<or> digits_us ip) \<and> (tl dot = [] \<or> digits_us (tl dot)) \<and>
                  (ip \<noteq> [] \<or> tl dot \<noteq> []))"
    using ok unfolding decimal_value_def Let_def m ex ip_def[symmetric] dot_def[symmetric]
    by (auto split: if_splits)
  show ?thesis
  proof (cases "dot = []")
    case True
    then have "digits_us ip" using mant by simp
    then have "ip \<noteq> []" "is_digit (hd ip)" using digits_us_hd by auto
    moreover have "filter (\<lambda>c. c = CHR ''.'') ip = []"
      using ipd digit_charset unfolding filter_empty_conv list_all_iff by blast
    ultimately show ?thesis using True b by (cases ip) (auto simp: list_ex_iff)
  next
    case False
    then obtain fp where dot: "dot = CHR ''.'' # fp"
      using hd_dropWhile[of "\<lambda>c. c \<noteq> CHR ''.''" b] unfolding dot_def[symmetric]
      by (cases dot) auto
    have fpc: "list_all (\<lambda>c. c \<in> set ''1234567890.'') fp"
      using cs b dot by simp
    have fp_ok: "fp = [] \<or> digits_us fp" and ne: "ip \<noteq> [] \<or> fp \<noteq> []"
      using mant dot by auto
    have fpd: "list_all is_digit fp"
    proof (cases "fp = []")
      case True then show ?thesis by simp
    next
      case False
      then have "digits_us fp" using fp_ok by simp
      from digits_us_chars[OF this] fpc charset_not_us show ?thesis
        unfolding list_all_iff by blast
    qed
    have nodot: "filter (\<lambda>c. c = CHR ''.'') ip = []" "filter (\<lambda>c. c = CHR ''.'') fp = []"
      using ipd fpd digit_charset unfolding filter_empty_conv list_all_iff by blast+
    have "list_ex is_digit b"
      using ne ipd fpd b dot by (cases ip; cases fp) (auto simp: list_ex_iff)
    then show ?thesis using nodot b dot by simp
  qed
qed


lemma charset_lower: "c \<in> set ''-1234567890.'' \<Longrightarrow> lower_char c = c"
  by (auto simp: lower_char_def)

lemma charset_not_ws: "c \<in> set ''-1234567890.'' \<Longrightarrow> c \<notin> set py_whitespace"
  by (auto simp: py_whitespace_def)

lemma charset_not_word:
  assumes "\<forall>c\<in>set u. c \<in> set ''-1234567890.''"
  shows "py_lower u \<noteq> ''inf'' \<and> py_lower u \<noteq> ''infinity'' \<and> py_lower u \<noteq> ''nan''"
proof (cases u)
  case Nil
  then show ?thesis by (simp add: py_lower_def)
next
  case (Cons c cs)
  then have c: "c \<in> set ''-1234567890.''" using assms by simp
  then have "lower_char c = c" by (rule charset_lower)
  moreover have "c \<noteq> CHR ''i'' \<and> c \<noteq> CHR ''n''" using c by auto
  ultimately show ?thesis using Cons by (simp add: py_lower_def)
qed

lemma decimal_value_minus: "decimal_value (CHR ''-'' # ds) = None"
proof -
  have "\<And>xs. \<not> digits_us (CHR ''-'' # xs)"
    using digits_us_hd by (fastforce simp: is_digit_def)
  then show ?thesis
    by (simp add: decimal_value_def Let_def)
qed

lemma lstrip_charset:
  assumes "list_all (\<lambda>c. c \<in> set ''1234567890.'') (lstrip t ''-'')"
  shows "\<forall>c\<in>set t. c \<in> set ''-1234567890.''"
proof
  fix c assume "c \<in> set t"
  then have "c \<in> set (takeWhile (\<lambda>c. c \<in> set ''-'') t) \<or> c \<in> set (dropWhile (\<lambda>c. c \<in> set ''-'') t)"
    by (metis Un_iff set_append takeWhile_dropWhile_id)
  then show "c \<in> set ''-1234567890.''"
  proof
    assume "c \<in> set (takeWhile (\<lambda>c. c \<in> set ''-'') t)"
    then have "c \<in> set ''-''" by (auto dest: set_takeWhileD)
    then show ?thesis by simp
  next
    assume "c \<in> set (dropWhile (\<lambda>c. c \<in> set ''-'') t)"
    then have "c \<in> set ''1234567890.''" using assms by (simp add: lstrip_def list_all_iff)
    then show ?thesis by simp
  qed
qed

lemma plain_decimal_minus:
  "plain_decimal (CHR ''-'' # cs) =
     (list_all (\<lambda>c. c \<in> set ''1234567890.'') cs \<and>
      length (filter (\<lambda>c. c = CHR ''.'') cs) \<le> 1 \<and> list_ex is_digit cs)"
  by (simp add: plain_decimal_def)

lemma plain_decimal_other:
  "c \<noteq> CHR ''-'' \<Longrightarrow> t = c # cs \<Longrightarrow> plain_decimal t =
     (list_all (\<lambda>c. c \<in> set ''1234567890.'') t \<and>
      length (filter (\<lambda>c. c = CHR ''.'') t) \<le> 1 \<and> list_ex is_digit t)"
  by (simp add: plain_decimal_def)

lemma py_float_not_plain:
  assumes cs: "list_all (\<lambda>c. c \<in> set ''1234567890.'') (lstrip t ''-'')"
    and np: "\<not> plain_decimal t"
  shows "py_float t = Inl (Raise ValueError [Text ''could not convert string to float: '', Text t])"
proof -
  have all: "\<forall>c\<in>set t. c \<in> set ''-1234567890.''" by (rule lstrip_charset[OF cs])
  then have st: "strip t py_whitespace = t"
    using charset_not_ws by (intro strip_no_chars) blast
  obtain neg u where su: "split_sign t = (neg, u)" by (cases "split_sign t")
  have u_sub: "set u \<subseteq> set t"
    using su by (auto simp: split_sign_def split: list.splits if_splits)
  then have nw: "py_lower u \<noteq> ''inf'' \<and> py_lower u \<noteq> ''infinity'' \<and> py_lower u \<noteq> ''nan''"
    using all by (intro charset_not_word) blast
  have dv: "decimal_value u = None"
  proof (cases t)
    case Nil
    then have "u = []" using su by (simp add: split_sign_def)
    then show ?thesis by (simp add: decimal_value_def)
  next
    case (Cons c rest)
    show ?thesis
    proof (cases "c = CHR ''-''")
      case True
      then have u: "u = rest" using su Cons by (simp add: split_sign_def)
      show ?thesis
      proof (cases rest)
        case Nil
        then show ?thesis using u by (simp add: decimal_value_def)
      next
        case (Cons d ds)
        show ?thesis
        proof (cases "d = CHR ''-''")
          case True
          then show ?thesis using u Cons by (simp add: decimal_value_minus)
        next
          case False
          then have "lstrip t ''-'' = rest"
            using \<open>t = c # rest\<close> \<open>c = CHR ''-''\<close> Cons by (simp add: lstrip_def)
          then have r: "list_all (\<lambda>c. c \<in> set ''1234567890.'') rest" using cs by simp
          have "\<not> (length (filter (\<lambda>c. c = CHR ''.'') rest) \<le> 1 \<and> list_ex is_digit rest)"
            using np r \<open>t = c # rest\<close> \<open>c = CHR ''-''\<close> plain_decimal_minus[of rest] by blast
          then show ?thesis using decimal_value_plain[OF r] u by blast
        qed
      qed
    next
      case False
      then have l: "lstrip t ''-'' = t" using Cons by (simp add: lstrip_def)
      then have r: "list_all (\<lambda>c. c \<in> set ''1234567890.'') t" using cs by simp
      then have "c \<noteq> CHR ''+''" using Cons by auto
      then have u: "u = t" using su Cons False by (simp add: split_sign_def)
      have "\<not> (length (filter (\<lambda>c. c = CHR ''.'') t) \<le> 1 \<and> list_ex is_digit t)"
        using np r plain_decimal_other[OF False Cons] by blast
      then show ?thesis using decimal_value_plain[OF r] u by blast
    qed
  qed
  show ?thesis using st su nw dv by (simp add: py_float_def)
qed

lemma plain_decimal_isnumeric: "isnumeric t \<Longrightarrow> plain_decimal t"
proof -
  assume a: "isnumeric t"
  then obtain c cs where t: "t = c # cs" by (cases t) (auto simp: isnumeric_def)
  have d: "list_all is_digit t" using a by (simp add: isnumeric_def)
  then have "c \<noteq> CHR ''-''" using t digit_charset by fastforce
  moreover have "list_all (\<lambda>c. c \<in> set ''1234567890.'') t"
    using d digit_charset unfolding list_all_iff by blast
  moreover have "filter (\<lambda>c. c = CHR ''.'') t = []"
    using d digit_charset unfolding filter_empty_conv list_all_iff by blast
  moreover have "list_ex is_digit t" using d t by (simp add: list_ex_iff)
  ultimately show ?thesis using plain_decimal_other[of c t cs] t by simp
qed

text \<open>
  Claim C10. The type guesser is not total. Let \<open>t\<close> be the input with surrounding spaces
  stripped (the guesser's first step). When \<open>t\<close>, after its leading minus signs, consists
  of digits and dots only and is not a plain decimal literal, the float branch is taken
  and the guesser raises the \<^verbatim>\<open>ValueError\<close> of \<^verbatim>\<open>float\<close>; it does not return the string.
\<close>

theorem parse_string_guessing_type_float_branch_raises:
  "list_all (\<lambda>c. c \<in> set ''1234567890.'') (lstrip (strip s '' '') ''-'') \<and>
   \<not> plain_decimal (strip s '' '') \<longrightarrow>
   parse_string_guessing_type s =
     Inl (Raise ValueError
       [Text ''could not convert string to float: '', Text (strip s '' '')])"
  using py_float_not_plain plain_decimal_isnumeric
  by (auto simp add: parse_string_guessing_type_def Let_def)

theorem parse_string_guessing_type_float_branch_raises_witness:
  "\<not> plain_decimal ''1.2.3'' \<and> \<not> plain_decimal ''-'' \<and> \<not> plain_decimal ''.'' \<and>
   \<not> plain_decimal [] \<and>
   parse_string_guessing_type ''1.2.3'' =
     Inl (Raise ValueError [Text ''could not convert string to float: '', Text ''1.2.3'']) \<and>
   parse_string_guessing_type ''-'' =
     Inl (Raise ValueError [Text ''could not convert string to float: '', Text ''-'']) \<and>
   parse_string_guessing_type ''.'' =
     Inl (Raise ValueError [Text ''could not convert string to float: '', Text ''.'']) \<and>
   parse_string_guessing_type [] =
     Inl (Raise ValueError [Text ''could not convert string to float: '', Text []])"
  using parse_string_guessing_type_float_branch_raises[of "''1.2.3''"]
    parse_string_guessing_type_float_branch_raises[of "''-''"]
    parse_string_guessing_type_float_branch_raises[of "''.''"]
    parse_string_guessing_type_float_branch_raises[of "[]"]
  by (simp add: strip_def lstrip_def rstrip_def plain_decimal_def is_digit_def)

subsection \<open>Union annotations\<close>

lemma convert_union_arms_first:
  "list_all (\<lambda>a. isl (get_appropriate_type_converter a s)) pre \<Longrightarrow>
   get_appropriate_type_converter t s = Inr v \<Longrightarrow>
   convert_union_arms (pre @ t # post) s = Some v"
  by (induction pre) (auto split: sum.splits)

lemma convert_union_arms_none:
  "list_all (\<lambda>a. isl (get_appropriate_type_converter a s)) arms \<Longrightarrow>
   convert_union_arms arms s = None"
  by (induction arms) (auto split: sum.splits)

lemmas eval_number_defs =
  py_int_def py_float_def decimal_value_def Let_def py_lower_def lower_char_def strip_def
  lstrip_def rstrip_def py_whitespace_def split_sign_def is_digit_def nat_of_digits_def
  digit_value_def

lemmas eval_split_defs = consume_def bracketed_split_def openers_def closers_def
  opener_to_closer_def mapping_kv_pairs_def

text \<open>
  Claim C2. The converter of \<^verbatim>\<open>Union[T1..Tn]\<close> returns \<^verbatim>\<open>None\<close> when the string is exactly
  \<^verbatim>\<open>"None"\<close> and \<^verbatim>\<open>NoneType\<close> is one of the arms. Otherwise it returns the conversion of
  the first arm, in declared order, whose converter succeeds, and when every arm fails
  it raises \<^verbatim>\<open>AutoArgParserError\<close> with the string and the list of all arms. For
  \<^verbatim>\<open>Union[int, float, Sequence[int]]\<close>: \<^verbatim>\<open>"54"\<close> gives the int 54, \<^verbatim>\<open>"3.14"\<close> a float,
  \<^verbatim>\<open>"54,32,23"\<close> a list, and \<^verbatim>\<open>"3.14,32,23"\<close> fails.
\<close>

theorem convert_union_string_first_match:
  "(string_rep = ''None'' \<and> TNoneType \<in> set subtypes \<longrightarrow>
      get_appropriate_type_converter (TUnion subtypes) string_rep = Inr VNone) \<and>
   (\<not> (string_rep = ''None'' \<and> TNoneType \<in> set subtypes) \<and>
    subtypes = pre @ t # post \<and>
    list_all (\<lambda>a. isl (get_appropriate_type_converter a string_rep)) pre \<and>
    get_appropriate_type_converter t string_rep = Inr v \<longrightarrow>
      get_appropriate_type_converter (TUnion subtypes) string_rep = Inr v) \<and>
   (\<not> (string_rep = ''None'' \<and> TNoneType \<in> set subtypes) \<and>
    list_all (\<lambda>a. isl (get_appropriate_type_converter a string_rep)) subtypes \<longrightarrow>
      get_appropriate_type_converter (TUnion subtypes) string_rep =
        Inl (Raise AutoArgParserError
          [Text ''Provided value '', Text string_rep,
           Text ('' doesn'' @ [CHR 0x27] @ ''t seem to match any of the union types: ''),
           TypeList subtypes])) \<and>
   get_appropriate_type_converter (TUnion [TInt, TFloat, TSequence TInt]) ''54'' =
     Inr (VInt 54) \<and>
   get_appropriate_type_converter (TUnion [TInt, TFloat, TSequence TInt]) ''3.14'' =
     Inr (VFloat (314 / 100)) \<and>
   get_appropriate_type_converter (TUnion [TInt, TFloat, TSequence TInt]) ''54,32,23'' =
     Inr (VList [VInt 54, VInt 32, VInt 23]) \<and>
   get_appropriate_type_converter (TUnion [TInt, TFloat, TSequence TInt]) ''3.14,32,23'' =
     Inl (Raise AutoArgParserError
       [Text ''Provided value '', Text ''3.14,32,23'',
        Text ('' doesn'' @ [CHR 0x27] @ ''t seem to match any of the union types: ''),
        TypeList [TInt, TFloat, TSequence TInt]])"
proof (intro conjI impI)
  assume "string_rep = ''None'' \<and> TNoneType \<in> set subtypes"
  then show "get_appropriate_type_converter (TUnion subtypes) string_rep = Inr VNone"
    by simp
next
  assume a: "\<not> (string_rep = ''None'' \<and> TNoneType \<in> set subtypes) \<and>
    subtypes = pre @ t # post \<and>
    list_all (\<lambda>a. isl (get_appropriate_type_converter a string_rep)) pre \<and>
    get_appropriate_type_converter t string_rep = Inr v"
  then have "convert_union_arms subtypes string_rep = Some v"
    using convert_union_arms_first[of string_rep pre t v post] by simp
  then show "get_appropriate_type_converter (TUnion subtypes) string_rep = Inr v"
    using a by auto
next
  assume a: "\<not> (string_rep = ''None'' \<and> TNoneType \<in> set subtypes) \<and>
    list_all (\<lambda>a. isl (get_appropriate_type_converter a string_rep)) subtypes"
  then have "convert_union_arms subtypes string_rep = None"
    using convert_union_arms_none[of string_rep subtypes] by simp
  then show "get_appropriate_type_converter (TUnion subtypes) string_rep =
        Inl (Raise AutoArgParserError
          [Text ''Provided value '', Text string_rep,
           Text ('' doesn'' @ [CHR 0x27] @ ''t seem to match any of the union types: ''),
           TypeList subtypes])"
    using a by auto
next
  show "get_appropriate_type_converter (TUnion [TInt, TFloat, TSequence TInt]) ''54'' =
     Inr (VInt 54)"
    by (simp add: eval_number_defs)
next
  show "get_appropriate_type_converter (TUnion [TInt, TFloat, TSequence TInt]) ''3.14'' =
     Inr (VFloat (314 / 100))"
    by (simp add: eval_number_defs)
next
  show "get_appropriate_type_converter (TUnion [TInt, TFloat, TSequence TInt]) ''54,32,23'' =
     Inr (VList [VInt 54, VInt 32, VInt 23])"
    by (simp add: eval_number_defs eval_split_defs)
next
  show "get_appropriate_type_converter (TUnion [TInt, TFloat, TSequence TInt]) ''3.14,32,23'' =
     Inl (Raise AutoArgParserError
       [Text ''Provided value '', Text ''3.14,32,23'',
        Text ('' doesn'' @ [CHR 0x27] @ ''t seem to match any of the union types: ''),
        TypeList [TInt, TFloat, TSequence TInt]])"
    by (simp add: eval_number_defs eval_split_defs)
qed

theorem convert_union_string_first_match_witness:
  "TNoneType \<in> set [TInt, TNoneType] \<and>
   get_appropriate_type_converter (TUnion [TInt, TNoneType]) ''None'' = Inr VNone \<and>
   isl (get_appropriate_type_converter TInt ''abc'') \<and>
   get_appropriate_type_converter TNoneType ''abc'' = Inr (VStr ''abc'') \<and>
   get_appropriate_type_converter (TUnion [TInt, TNoneType]) ''abc'' = Inr (VStr ''abc'') \<and>
   list_all (\<lambda>a. isl (get_appropriate_type_converter a ''x'')) [TInt, TFloat] \<and>
   get_appropriate_type_converter (TUnion [TInt, TFloat]) ''x'' =
     Inl (Raise AutoArgParserError
       [Text ''Provided value '', Text ''x'',
        Text ('' doesn'' @ [CHR 0x27] @ ''t seem to match any of the union types: ''),
        TypeList [TInt, TFloat]])"
  using convert_union_string_first_match[of "''None''" "[TInt, TNoneType]"]
    convert_union_string_first_match[of "''abc''" "[TInt, TNoneType]" "[TInt]" TNoneType "[]"
      "VStr ''abc''"]
    convert_union_string_first_match[of "''x''" "[TInt, TFloat]"]
  by (simp add: eval_number_defs)

subsection \<open>Tuple annotations\<close>








subsection \<open>Mapping annotations and duplicate keys\<close>












section \<open>Properties of the parser\<close>

subsection \<open>Validation at construction\<close>

lemma AutoArgParser_ok_keys:
  assumes "fa_varkw (fn_spec f) = None"
    and "AutoArgParser f arg_converters default_overrides short_names deep = Inr p"
  shows "(case short_names of None \<Rightarrow> True
          | Some sn \<Rightarrow> set (map fst sn) \<subseteq> set (fa_args (fn_spec f))) \<and>
         (case arg_converters of None \<Rightarrow> True
          | Some ac \<Rightarrow> set (map fst ac) \<subseteq> set (fa_args (fn_spec f)))"
  using assms unfolding AutoArgParser_def Let_def
  by (auto split: if_splits option.splits)

lemma AutoArgParser_default_overrides_free:
  "isl (AutoArgParser f arg_converters default_overrides short_names deep) =
   isl (AutoArgParser f arg_converters None short_names deep)"
  unfolding AutoArgParser_def Let_def
  by (auto split: if_splits option.splits sum.splits)

text \<open>
  Claim C8, as the code has it. When the callable has no catch-all keyword parameter,
  construction fails with the assertion's error as soon as a key of \<^verbatim>\<open>short_names\<close> or
  of \<^verbatim>\<open>arg_converters\<close> is not among \<^verbatim>\<open>spec.args\<close>; a parser that was constructed has
  all keys of both mappings among \<^verbatim>\<open>spec.args\<close>. The keys of \<^verbatim>\<open>default_overrides\<close> are
  never checked: whether construction fails does not depend on that mapping, and a key
  that names no parameter is ignored.
\<close>

theorem AutoArgParser_validates_short_names_and_converters:
  "(fa_varkw (fn_spec f) = None \<and> short_names = Some sn \<and>
    \<not> set (map fst sn) \<subseteq> set (fa_args (fn_spec f)) \<longrightarrow>
      AutoArgParser f arg_converters default_overrides short_names deep =
        Inl (Raise AssertionError
          [Text ''Short names '',
           NameSet (filter (\<lambda>k. k \<notin> set (fa_args (fn_spec f))) (map fst sn)),
           Text '' do not exist in the list of args to function '',
           Text (fn_name f)])) \<and>
   (fa_varkw (fn_spec f) = None \<and> arg_converters = Some ac \<and>
    \<not> set (map fst ac) \<subseteq> set (fa_args (fn_spec f)) \<longrightarrow>
      (\<exists>msg. AutoArgParser f arg_converters default_overrides short_names deep =
        Inl (Raise AssertionError msg))) \<and>
   (fa_varkw (fn_spec f) = None \<and>
    AutoArgParser f arg_converters default_overrides short_names deep = Inr p \<longrightarrow>
      (case short_names of None \<Rightarrow> True
       | Some sn \<Rightarrow> set (map fst sn) \<subseteq> set (fa_args (fn_spec f))) \<and>
      (case arg_converters of None \<Rightarrow> True
       | Some ac \<Rightarrow> set (map fst ac) \<subseteq> set (fa_args (fn_spec f)))) \<and>
   isl (AutoArgParser f arg_converters default_overrides short_names deep) =
     isl (AutoArgParser f arg_converters None short_names deep)"
proof (intro conjI impI)
  assume "fa_varkw (fn_spec f) = None \<and> short_names = Some sn \<and>
    \<not> set (map fst sn) \<subseteq> set (fa_args (fn_spec f))"
  then show "AutoArgParser f arg_converters default_overrides short_names deep =
        Inl (Raise AssertionError
          [Text ''Short names '',
           NameSet (filter (\<lambda>k. k \<notin> set (fa_args (fn_spec f))) (map fst sn)),
           Text '' do not exist in the list of args to function '',
           Text (fn_name f)])"
    by (simp add: AutoArgParser_def Let_def)
next
  assume "fa_varkw (fn_spec f) = None \<and> arg_converters = Some ac \<and>
    \<not> set (map fst ac) \<subseteq> set (fa_args (fn_spec f))"
  then show "\<exists>msg. AutoArgParser f arg_converters default_overrides short_names deep =
        Inl (Raise AssertionError msg)"
    by (simp add: AutoArgParser_def Let_def)
next
  assume a: "fa_varkw (fn_spec f) = None \<and>
    AutoArgParser f arg_converters default_overrides short_names deep = Inr p"
  from AutoArgParser_ok_keys[of f arg_converters default_overrides short_names deep p] a
  show "case short_names of None \<Rightarrow> True
       | Some sn \<Rightarrow> set (map fst sn) \<subseteq> set (fa_args (fn_spec f))"
    and "case arg_converters of None \<Rightarrow> True
       | Some ac \<Rightarrow> set (map fst ac) \<subseteq> set (fa_args (fn_spec f))"
    by simp_all
next
  show "isl (AutoArgParser f arg_converters default_overrides short_names deep) =
     isl (AutoArgParser f arg_converters None short_names deep)"
    by (rule AutoArgParser_default_overrides_free)
qed

theorem AutoArgParser_validates_short_names_and_converters_witness:
  "fa_varkw (fn_spec compute_a_minus_b) = None \<and>
   AutoArgParser compute_a_minus_b None None (Some [(''c'', ''x'')]) False =
     Inl (Raise AssertionError
       [Text ''Short names '', NameSet [''c''],
        Text '' do not exist in the list of args to function '',
        Text ''compute_a_minus_b'']) \<and>
   (\<exists>msg. AutoArgParser compute_a_minus_b (Some [(''c'', py_int)]) None None False =
     Inl (Raise AssertionError msg)) \<and>
   \<not> isl (AutoArgParser compute_a_minus_b (Some [(''a'', py_int)]) None
          (Some [(''b'', ''x'')]) False)"
  using AutoArgParser_validates_short_names_and_converters
      [where f = compute_a_minus_b and short_names = "Some [(''c'', ''x'')]"
         and sn = "[(''c'', ''x'')]" and arg_converters = None and default_overrides = None
         and deep = False]
    AutoArgParser_validates_short_names_and_converters
      [where f = compute_a_minus_b and short_names = None
         and arg_converters = "Some [(''c'', py_int)]" and ac = "[(''c'', py_int)]"
         and default_overrides = None and deep = False]
  by (simp add: compute_a_minus_b_def AutoArgParser_def Let_def zip_equal_def make_argspec_def)

theorem AutoArgParser_default_overrides_counterexample:
  "fa_varkw (fn_spec compute_a_minus_b) = None \<and>
   ''zzz'' \<notin> set (fa_args (fn_spec compute_a_minus_b)) \<and>
   \<not> isl (AutoArgParser compute_a_minus_b None (Some [(''zzz'', VInt 1)]) None False) \<and>
   map spec_default
     (self_args (projr (AutoArgParser compute_a_minus_b None (Some [(''zzz'', VInt 1)]) None
        False))) = [NoValue, NoValue]"
  by (simp add: compute_a_minus_b_def AutoArgParser_def Let_def zip_equal_def make_argspec_def)

subsection \<open>Positional promotion\<close>

lemma insert_names_bare:
  "list_all (\<lambda>t. \<not> is_argument_key t) tokens \<Longrightarrow>
   insert_names names tokens = named_tokens names tokens"
  by (induction names tokens rule: insert_names.induct) (auto simp: named_tokens_def)

lemma is_argument_key_named: "is_argument_key (''--'' @ n @ ''='' @ v)"
proof -
  have "dropWhile (\<lambda>c. c \<in> set ''-.,0123456789'') (n @ ''='' @ v) \<noteq> []"
    by (simp add: dropWhile_eq_Nil_conv del: set_simps) (simp)
  then show ?thesis
    by (simp add: is_argument_key_def startswith_def lstrip_def)
qed

lemma insert_names_named:
  "insert_names names (named_tokens names values) = named_tokens names values"
proof (cases names)
  case Nil
  then show ?thesis by simp
next
  case (Cons n ns)
  show ?thesis
  proof (cases "values")
    case Nil
    then show ?thesis by (simp add: named_tokens_def Cons)
  next
    case (Cons v vs)
    have "named_tokens names values = (''--'' @ n @ ''='' @ v) # named_tokens ns vs"
      using Cons \<open>names = n # ns\<close> by (simp add: named_tokens_def)
    then show ?thesis
      using is_argument_key_named[of n v] \<open>names = n # ns\<close> by simp
  qed
qed

text \<open>
  Claim C1. For a token list of bare positional values (no token looks like an argument
  key), parsing the values is parsing their named form \<^verbatim>\<open>--<name>=<value>\<close>, taken in
  declaration order: the same keyword arguments and remaining tokens, or the same
  exception, and so the same result of the call. For \<^verbatim>\<open>compute_a_minus_b(a, b)\<close>,
  \<^verbatim>\<open>["4", "5"]\<close> and \<^verbatim>\<open>["--a=4", "--b=5"]\<close> both give \<open>a = 4.0\<close>, \<open>b = 5.0\<close>.
\<close>

theorem positional_tokens_parse_as_named:
  "(list_all (\<lambda>t. \<not> is_argument_key t) tokens \<longrightarrow>
      insert_names (map spec_name (self_args self)) tokens =
        named_tokens (map spec_name (self_args self)) tokens \<and>
      insert_names (map spec_name (self_args self))
          (named_tokens (map spec_name (self_args self)) tokens) =
        named_tokens (map spec_name (self_args self)) tokens \<and>
      parse_arg_string_and_remaining self tokens allow_remaining =
        parse_arg_string_and_remaining self
          (named_tokens (map spec_name (self_args self)) tokens) allow_remaining \<and>
      call_from_command_line self tokens =
        call_from_command_line self (named_tokens (map spec_name (self_args self)) tokens)) \<and>
   (AutoArgParser compute_a_minus_b None None None False = Inr p \<longrightarrow>
      named_tokens (map spec_name (self_args p)) [''4'', ''5''] = [''--a=4'', ''--b=5''] \<and>
      parse_arg_string_and_remaining p [''4'', ''5''] False =
        Inr ([(''a'', VFloat 4), (''b'', VFloat 5)], []) \<and>
      parse_arg_string_and_remaining p [''--a=4'', ''--b=5''] False =
        Inr ([(''a'', VFloat 4), (''b'', VFloat 5)], []))"
proof (intro conjI impI)
  assume bare: "list_all (\<lambda>t. \<not> is_argument_key t) tokens"
  let ?names = "map spec_name (self_args self)"
  show "insert_names ?names tokens = named_tokens ?names tokens"
    by (rule insert_names_bare[OF bare])
  show "insert_names ?names (named_tokens ?names tokens) = named_tokens ?names tokens"
    by (rule insert_names_named)
  have eq: "insert_names ?names tokens = insert_names ?names (named_tokens ?names tokens)"
    by (simp add: insert_names_bare[OF bare] insert_names_named)
  show p: "parse_arg_string_and_remaining self tokens allow_remaining =
        parse_arg_string_and_remaining self (named_tokens ?names tokens) allow_remaining"
    for allow_remaining
    by (simp only: parse_arg_string_and_remaining.simps eq)
  show "call_from_command_line self tokens =
        call_from_command_line self (named_tokens ?names tokens)"
    by (simp only: call_from_command_line.simps p)
next
  assume "AutoArgParser compute_a_minus_b None None None False = Inr p"
  then have p: "p = \<lparr>self_function = compute_a_minus_b, self_short_names = [],
      self_arg_converters = [], self_raise_deep_exceptions = False,
      self_args = [\<lparr>spec_name = ''a'', spec_type = Some TFloat, spec_default = NoValue,
                      spec_doc = None\<rparr>,
                   \<lparr>spec_name = ''b'', spec_type = Some TFloat, spec_default = NoValue,
                      spec_doc = None\<rparr>]\<rparr>"
    by (simp add: compute_a_minus_b_def AutoArgParser_def Let_def zip_equal_def
        make_argspec_def)
  show "named_tokens (map spec_name (self_args p)) [''4'', ''5''] = [''--a=4'', ''--b=5'']"
    by (simp add: p named_tokens_def)
  show "parse_arg_string_and_remaining p [''4'', ''5''] False =
        Inr ([(''a'', VFloat 4), (''b'', VFloat 5)], [])"
    unfolding p by code_simp
  show "parse_arg_string_and_remaining p [''--a=4'', ''--b=5''] False =
        Inr ([(''a'', VFloat 4), (''b'', VFloat 5)], [])"
    unfolding p by code_simp
qed

theorem positional_tokens_parse_as_named_witness:
  "list_all (\<lambda>t. \<not> is_argument_key t) [''5'', ''-4.5''] \<and>
   named_tokens [''a'', ''b''] [''5'', ''-4.5''] = [''--a=5'', ''--b=-4.5''] \<and>
   parse_arg_string_and_remaining
     (projr (AutoArgParser compute_a_minus_b None None None False)) [''5'', ''-4.5''] False =
   parse_arg_string_and_remaining
     (projr (AutoArgParser compute_a_minus_b None None None False))
     [''--a=5'', ''--b=-4.5''] False \<and>
   \<not> isl (AutoArgParser compute_a_minus_b None None None False)"
proof -
  have p: "AutoArgParser compute_a_minus_b None None None False =
      Inr \<lparr>self_function = compute_a_minus_b, self_short_names = [],
      self_arg_converters = [], self_raise_deep_exceptions = False,
      self_args = [\<lparr>spec_name = ''a'', spec_type = Some TFloat, spec_default = NoValue,
                      spec_doc = None\<rparr>,
                   \<lparr>spec_name = ''b'', spec_type = Some TFloat, spec_default = NoValue,
                      spec_doc = None\<rparr>]\<rparr>"
    by (simp add: compute_a_minus_b_def AutoArgParser_def Let_def zip_equal_def
        make_argspec_def)
  have bare: "list_all (\<lambda>t. \<not> is_argument_key t) [''5'', ''-4.5'']"
    by (simp add: is_argument_key_def startswith_def lstrip_def)
  have named: "named_tokens [''a'', ''b''] [''5'', ''-4.5''] = [''--a=5'', ''--b=-4.5'']"
    by (simp add: named_tokens_def)
  from positional_tokens_parse_as_named
    [of "[''5'', ''-4.5'']" "projr (AutoArgParser compute_a_minus_b None None None False)" False]
    bare named p
  show ?thesis by simp
qed

subsection \<open>The sentinel never reaches the callable\<close>

lemma kw_set_no_sentinel:
  "list_all (\<lambda>kv. snd kv \<noteq> NoValue) d \<Longrightarrow> v \<noteq> NoValue \<Longrightarrow>
   list_all (\<lambda>kv. snd kv \<noteq> NoValue) (kw_set d k v)"
  by (induction d) auto

lemma kw_update_no_sentinel:
  "list_all (\<lambda>kv. snd kv \<noteq> NoValue) d \<Longrightarrow> list_all (\<lambda>kv. snd kv \<noteq> NoValue) other \<Longrightarrow>
   list_all (\<lambda>kv. snd kv \<noteq> NoValue) (kw_update d other)"
  unfolding kw_update_def
  by (induction other arbitrary: d) (auto simp: kw_set_no_sentinel)

lemma attrs_init_not_sentinel: "attrs_init c field_names dflts kwargs = Inr v \<Longrightarrow> v \<noteq> NoValue"
  by (auto simp: attrs_init_def Let_def split: if_splits sum.splits)

lemma AutoArgParser_function:
  "AutoArgParser f ac ov sn deep = Inr p \<Longrightarrow> self_function p = f"
  by (auto simp: AutoArgParser_def Let_def split: if_splits sum.splits)

lemma call_attrs_not_sentinel:
  assumes "AutoArgParser (attrs_callable c field_names anns dflts) ac ov sn deep = Inr sub_parser"
    and "call_from_command_line sub_parser toks = Inr v"
  shows "v \<noteq> NoValue"
proof -
  have "fn_call (self_function sub_parser) = attrs_init c field_names dflts"
    using AutoArgParser_function[OF assms(1)] by (simp add: attrs_callable_def)
  then show ?thesis
    using assms(2)
    by (auto simp: call_from_command_line.simps split: sum.splits
        dest: attrs_init_not_sentinel)
qed

lemma register_args_no_sentinel:
  "register_args self specs arg_strings parser sub_kwargs direct = Inr (parser', sub_kwargs', direct') \<Longrightarrow>
   list_all (\<lambda>kv. snd kv \<noteq> NoValue) sub_kwargs \<Longrightarrow>
   list_all (\<lambda>kv. snd kv \<noteq> NoValue) sub_kwargs'"
proof (induction specs arbitrary: parser sub_kwargs direct)
  case Nil
  then show ?case by simp
next
  case (Cons a specs)
  show ?case
  proof (cases "attrs_class (spec_type a)")
    case None
    then show ?thesis
      using Cons.prems Cons.IH by (auto split: sum.splits)
  next
    case (Some cls)
    obtain c field_names anns dflts where cls: "cls = (c, field_names, anns, dflts)"
      by (cases cls)
    obtain sub_argstrings direct'' where sep:
      "separate_subargs_under_name direct (spec_name a)
         (map_of (self_short_names self) (spec_name a)) = (sub_argstrings, direct'')"
      by (cases "separate_subargs_under_name direct (spec_name a)
         (map_of (self_short_names self) (spec_name a))")
    from Cons.prems(1) Some cls sep obtain sub_parser v where
      sp: "AutoArgParser (attrs_callable c field_names anns dflts) None None None False =
             Inr sub_parser"
      and cv: "call_from_command_line sub_parser sub_argstrings = Inr v"
      and rest: "register_args self specs arg_strings parser
                   (kw_set sub_kwargs (spec_name a) v) direct'' =
                 Inr (parser', sub_kwargs', direct')"
      by (auto split: sum.splits)
    have "v \<noteq> NoValue" using call_attrs_not_sentinel[OF sp cv] .
    then have "list_all (\<lambda>kv. snd kv \<noteq> NoValue) (kw_set sub_kwargs (spec_name a) v)"
      using Cons.prems(2) by (rule kw_set_no_sentinel[rotated])
    then show ?thesis using Cons.IH[OF rest] by simp
  qed
qed

text \<open>
  Claim C6. Whenever \<^verbatim>\<open>parse_arg_string_and_remaining\<close> returns, no value of the keyword
  arguments it returns is the sentinel \<^verbatim>\<open>NoValue\<close>: the entries of the parsed namespace
  that equal the sentinel are dropped, and what the nested parsers contribute are
  instances of attrs classes. \<^verbatim>\<open>call_from_command_line\<close> passes exactly these keyword
  arguments to the callable.
\<close>

theorem sentinel_never_in_kwargs:
  "(parse_arg_string_and_remaining self tokens allow_remaining = Inr (kwargs, remaining) \<longrightarrow>
      list_all (\<lambda>kv. snd kv \<noteq> NoValue) kwargs) \<and>
   call_from_command_line self tokens =
     (case parse_arg_string_and_remaining self tokens False of
        Inl e \<Rightarrow> Inl e
      | Inr (kwargs, remaining) \<Rightarrow> fn_call (self_function self) kwargs)"
proof (intro conjI impI)
  assume a: "parse_arg_string_and_remaining self tokens allow_remaining = Inr (kwargs, remaining)"
  define arg_strings where
    "arg_strings = insert_names (map spec_name (self_args self)) tokens"
  from a obtain parser sub_kwargs direct namespace where
    reg: "register_args self (self_args self) arg_strings [] [] arg_strings =
            Inr (parser, sub_kwargs, direct)"
    and kw: "kwargs = kw_update (filter (\<lambda>kv. snd kv \<noteq> NoValue) namespace) sub_kwargs"
    unfolding arg_strings_def
    by (auto simp: parse_arg_string_and_remaining.simps Let_def
        split: sum.splits error.splits exc_class.splits if_splits)
  have "list_all (\<lambda>kv. snd kv \<noteq> NoValue) sub_kwargs"
    using register_args_no_sentinel[OF reg] by simp
  moreover have "list_all (\<lambda>kv. snd kv \<noteq> NoValue) (filter (\<lambda>kv. snd kv \<noteq> NoValue) namespace)"
    by (simp add: list_all_iff)
  ultimately show "list_all (\<lambda>kv. snd kv \<noteq> NoValue) kwargs"
    unfolding kw by (rule kw_update_no_sentinel[rotated])
next
  show "call_from_command_line self tokens =
     (case parse_arg_string_and_remaining self tokens False of
        Inl e \<Rightarrow> Inl e
      | Inr (kwargs, remaining) \<Rightarrow> fn_call (self_function self) kwargs)"
    by (simp only: call_from_command_line.simps)
qed

theorem sentinel_never_in_kwargs_witness:
  "parse_arg_string_and_remaining maybe_negate_parser [''--negate''] False =
     Inr ([(''negate'', VBool True)], []) \<and>
   map spec_default (self_args maybe_negate_parser) = [NoValue, VBool False] \<and>
   list_all (\<lambda>kv. snd kv \<noteq> NoValue) [(''negate'', VBool True)] \<and>
   parse_arg_string_and_remaining
     (projr (AutoArgParser greet_persion None None None False))
     [''--greeting'', ''Hello'', ''--person.name'', ''Suzy'', ''--person.age'', ''30''] False =
     Inr ([(''greeting'', VStr ''Hello''),
           (''person'', VInstance ''Person'' [(''name'', VStr ''Suzy''), (''age'', VInt 30)])],
          [])"
proof -
  have e: "parse_arg_string_and_remaining maybe_negate_parser [''--negate''] False =
     Inr ([(''negate'', VBool True)], [])"
    by code_simp
  have g: "parse_arg_string_and_remaining
     (projr (AutoArgParser greet_persion None None None False))
     [''--greeting'', ''Hello'', ''--person.name'', ''Suzy'', ''--person.age'', ''30''] False =
     Inr ([(''greeting'', VStr ''Hello''),
           (''person'', VInstance ''Person'' [(''name'', VStr ''Suzy''), (''age'', VInt 30)])],
          [])"
    by code_simp
  from sentinel_never_in_kwargs
    [of maybe_negate_parser "[''--negate'']" False "[(''negate'', VBool True)]" "[]"] e g
  show ?thesis by (simp add: maybe_negate_parser_def)
qed

subsection \<open>Boolean flags\<close>

lemma key_number: "is_argument_key ''--number=3''"
  by (simp add: is_argument_key_def startswith_def lstrip_def)

lemma apply_int_3: "apply_type f (get_appropriate_type_converter TInt) ''3'' = Inr (VInt 3)"
proof -
  have "py_int ''3'' = Inr (VInt 3)" by code_simp
  then show ?thesis by (simp add: apply_type_def)
qed

lemma parse_negate_explicit:
  assumes tok: "tok = ''--negate='' @ v"
  shows "parse_arg_string_and_remaining maybe_negate_parser [''--number=3'', tok] False =
   (if py_lower v \<in> set [''yes'', ''true'', ''t'', ''y'', ''1'']
    then Inr ([(''number'', VInt 3), (''negate'', VBool True)], [])
    else if py_lower v \<in> set [''no'', ''false'', ''f'', ''n'', ''0'']
    then Inr ([(''number'', VInt 3), (''negate'', VBool False)], [])
    else Inl (Raise AutoArgParserError
           [Text (''Error when feeding args '' @ [CHR 0x22]),
            Text (''--number=3 '' @ tok),
            Text ([CHR 0x22] @ '' to ''),
            Text ''maybe_negate'',
            Text (''(...):'' @ [CHR 0x0A]),
            Indented ''.   ''
              [Text ''argument '', Text ''--negate'', Text '': '',
               Text (''Boolean value expected, but got '' @ [CHR 0x22]), Text v,
               Text ([CHR 0x22] @ ''.'')],
            Text ([CHR 0x0A] @ ''.   You can set raise_deep_exceptions=True '' @
                  ''to help identify the source.'')]))"
proof -
  define fl_number where "fl_number =
      \<lparr>option_strings = [''--number''], dest = ''number'', flag_default = NoValue,
       flag_action = Store (get_appropriate_type_converter TInt), flag_help = None\<rparr>"
  define fl_negate where "fl_negate =
      \<lparr>option_strings = [''--negate''], dest = ''negate'', flag_default = VBool False,
       flag_action = Store (get_appropriate_type_converter TBool), flag_help = None\<rparr>"
  have t1: "tok \<noteq> ''-h''" "tok \<noteq> ''--help''" "tok \<noteq> ''--number''" "tok \<noteq> ''--negate''"
    and t2: "CHR ''='' \<in> set tok"
    and t3: "takeWhile (\<lambda>c. c \<noteq> CHR ''='') tok = ''--negate''"
    and t4: "drop (Suc (Suc (Suc (Suc (Suc (Suc (Suc (Suc (Suc 0))))))))) tok = v"
    by (simp_all add: tok)
  have names: "insert_names (map spec_name (self_args maybe_negate_parser)) [''--number=3'', tok] =
      [''--number=3'', tok]"
    by (simp add: maybe_negate_parser_def key_number)
  have reg: "register_args maybe_negate_parser (self_args maybe_negate_parser) [''--number=3'', tok] [] [] [''--number=3'', tok] =
      Inr ([fl_number, fl_negate], [], [''--number=3'', tok])"
    by (simp add: maybe_negate_parser_def add_arg_to_parser_def add_argument_def Let_def t2
        fl_number_def fl_negate_def)
  have cons: "consume_tokens [fl_number, fl_negate] [''--number=3'', tok]
       [(''number'', NoValue), (''negate'', VBool False)] [] [] =
     (case apply_type fl_negate (get_appropriate_type_converter TBool) v of
        Inl e \<Rightarrow> Inl e
      | Inr x \<Rightarrow> Inr ([(''number'', VInt 3), (''negate'', x)], [''negate'', ''number''], []))"
    by (simp add: find_flag_def apply_int_3 Let_def fl_number_def fl_negate_def t1 t2 t3 t4
        split: sum.splits)
  have ns: "map (\<lambda>f. (dest f, flag_default f)) [fl_number, fl_negate] =
      [(''number'', NoValue), (''negate'', VBool False)]"
    by (simp add: fl_number_def fl_negate_def)
  have pa: "parse_args [fl_number, fl_negate] [''--number=3'', tok] =
     (case apply_type fl_negate (get_appropriate_type_converter TBool) v of
        Inl e \<Rightarrow> Inl e
      | Inr x \<Rightarrow> Inr [(''number'', VInt 3), (''negate'', x)])"
    unfolding parse_args_def parse_known_args_def ns cons
    by (simp add: fl_number_def fl_negate_def split: sum.splits)
  have ap: "apply_type fl_negate (get_appropriate_type_converter TBool) v =
     (if py_lower v \<in> set [''yes'', ''true'', ''t'', ''y'', ''1''] then Inr (VBool True)
      else if py_lower v \<in> set [''no'', ''false'', ''f'', ''n'', ''0''] then Inr (VBool False)
      else Inl (Raise (SystemExit 2)
             [Text ''argument '', Text ''--negate'', Text '': '',
               Text (''Boolean value expected, but got '' @ [CHR 0x22]), Text v,
               Text ([CHR 0x22] @ ''.'')]))"
    by (simp add: apply_type_def str2bool_def prim_exit_def fl_negate_def)
  have nm: "fn_name (self_function maybe_negate_parser) = ''maybe_negate''" "\<not> self_raise_deep_exceptions maybe_negate_parser"
    by (simp_all add: maybe_negate_parser_def maybe_negate_def)
  show ?thesis
    unfolding parse_arg_string_and_remaining.simps names Let_def reg
    by (simp add: pa ap nm kw_update_def)
qed

lemma is_flag_loop_bare_negate:
  "rest = [] \<or> startswith (hd rest) ''-'' \<Longrightarrow>
   is_flag_loop (pre @ ''--negate'' # rest) ''negate'' None"
  by (induction pre) (auto simp: lstrip_def)

text \<open>
  Claim C4. \<^verbatim>\<open>str2bool\<close> accepts \<^verbatim>\<open>yes, true, t, y, 1\<close> as true and \<^verbatim>\<open>no, false, f, n, 0\<close>
  as false in any letter case, and raises an \<^verbatim>\<open>ArgumentTypeError\<close> carrying the string
  otherwise. A bare \<^verbatim>\<open>--negate\<close> that ends the token list or is followed by a token
  starting with \<^verbatim>\<open>-\<close> makes \<^verbatim>\<open>_add_arg_to_parser\<close> register the argument as a
  \<^verbatim>\<open>store_true\<close> flag. For \<^verbatim>\<open>maybe_negate(number: int, negate: bool = False)\<close>: the
  token \<^verbatim>\<open>--negate\<close> alone, last, or followed by another flag gives \<open>negate = True\<close>,
  and \<^verbatim>\<open>--negate=v\<close> gives what \<^verbatim>\<open>str2bool\<close> gives for \<open>v\<close>: true, false, or the failure
  of the parse with the offending string in its message.
\<close>

theorem boolean_flag_negate:
  "str2bool v =
     (if py_lower v \<in> set [''yes'', ''true'', ''t'', ''y'', ''1''] then Inr (VBool True)
      else if py_lower v \<in> set [''no'', ''false'', ''f'', ''n'', ''0''] then Inr (VBool False)
      else Inl (Raise ArgumentTypeError
             [Text (''Boolean value expected, but got '' @ [CHR 0x22]), Text v,
              Text ([CHR 0x22] @ ''.'')])) \<and>
   (rest = [] \<or> startswith (hd rest) ''-'' \<longrightarrow>
      is_flag_loop (pre @ ''--negate'' # rest) ''negate'' None \<and>
      add_arg_to_parser [] (pre @ ''--negate'' # rest) ''negate'' (Some TBool) None
          (VBool False) None None =
        Inr [\<lparr>option_strings = [''--negate''], dest = ''negate'', flag_default = VBool False,
               flag_action = StoreTrue, flag_help = None\<rparr>]) \<and>
   AutoArgParser maybe_negate None None None False = Inr maybe_negate_parser \<and>
   parse_arg_string_and_remaining maybe_negate_parser [''--negate''] False =
     Inr ([(''negate'', VBool True)], []) \<and>
   parse_arg_string_and_remaining maybe_negate_parser [''--number=3'', ''--negate''] False =
     Inr ([(''number'', VInt 3), (''negate'', VBool True)], []) \<and>
   parse_arg_string_and_remaining maybe_negate_parser [''--negate'', ''--number=3''] False =
     Inr ([(''number'', VInt 3), (''negate'', VBool True)], []) \<and>
   parse_arg_string_and_remaining maybe_negate_parser
       [''--number=3'', ''--negate='' @ v] False =
     (if py_lower v \<in> set [''yes'', ''true'', ''t'', ''y'', ''1'']
      then Inr ([(''number'', VInt 3), (''negate'', VBool True)], [])
      else if py_lower v \<in> set [''no'', ''false'', ''f'', ''n'', ''0'']
      then Inr ([(''number'', VInt 3), (''negate'', VBool False)], [])
      else Inl (Raise AutoArgParserError
             [Text (''Error when feeding args '' @ [CHR 0x22]),
              Text (''--number=3 '' @ ''--negate='' @ v),
              Text ([CHR 0x22] @ '' to ''),
              Text ''maybe_negate'',
              Text (''(...):'' @ [CHR 0x0A]),
              Indented ''.   ''
                [Text ''argument '', Text ''--negate'', Text '': '',
                 Text (''Boolean value expected, but got '' @ [CHR 0x22]), Text v,
                 Text ([CHR 0x22] @ ''.'')],
              Text ([CHR 0x0A] @ ''.   You can set raise_deep_exceptions=True '' @
                    ''to help identify the source.'')]))"
proof (intro conjI impI)
  show "str2bool v =
     (if py_lower v \<in> set [''yes'', ''true'', ''t'', ''y'', ''1''] then Inr (VBool True)
      else if py_lower v \<in> set [''no'', ''false'', ''f'', ''n'', ''0''] then Inr (VBool False)
      else Inl (Raise ArgumentTypeError
             [Text (''Boolean value expected, but got '' @ [CHR 0x22]), Text v,
              Text ([CHR 0x22] @ ''.'')]))"
    by (simp add: str2bool_def)
next
  assume r: "rest = [] \<or> startswith (hd rest) ''-''"
  show f: "is_flag_loop (pre @ ''--negate'' # rest) ''negate'' None"
    using r by (rule is_flag_loop_bare_negate)
  show "add_arg_to_parser [] (pre @ ''--negate'' # rest) ''negate'' (Some TBool) None
          (VBool False) None None =
        Inr [\<lparr>option_strings = [''--negate''], dest = ''negate'', flag_default = VBool False,
               flag_action = StoreTrue, flag_help = None\<rparr>]"
    using f by (simp add: add_arg_to_parser_def add_argument_def Let_def)
next
  show "AutoArgParser maybe_negate None None None False = Inr maybe_negate_parser"
    by (simp add: maybe_negate_def AutoArgParser_def Let_def zip_equal_def make_argspec_def
        maybe_negate_parser_def)
next
  show "parse_arg_string_and_remaining maybe_negate_parser [''--negate''] False =
     Inr ([(''negate'', VBool True)], [])"
    by code_simp
next
  show "parse_arg_string_and_remaining maybe_negate_parser [''--number=3'', ''--negate''] False =
     Inr ([(''number'', VInt 3), (''negate'', VBool True)], [])"
    by code_simp
next
  show "parse_arg_string_and_remaining maybe_negate_parser [''--negate'', ''--number=3''] False =
     Inr ([(''number'', VInt 3), (''negate'', VBool True)], [])"
    by code_simp
next
  show "parse_arg_string_and_remaining maybe_negate_parser
       [''--number=3'', ''--negate='' @ v] False =
     (if py_lower v \<in> set [''yes'', ''true'', ''t'', ''y'', ''1'']
      then Inr ([(''number'', VInt 3), (''negate'', VBool True)], [])
      else if py_lower v \<in> set [''no'', ''false'', ''f'', ''n'', ''0'']
      then Inr ([(''number'', VInt 3), (''negate'', VBool False)], [])
      else Inl (Raise AutoArgParserError
             [Text (''Error when feeding args '' @ [CHR 0x22]),
              Text (''--number=3 '' @ ''--negate='' @ v),
              Text ([CHR 0x22] @ '' to ''),
              Text ''maybe_negate'',
              Text (''(...):'' @ [CHR 0x0A]),
              Indented ''.   ''
                [Text ''argument '', Text ''--negate'', Text '': '',
                 Text (''Boolean value expected, but got '' @ [CHR 0x22]), Text v,
                 Text ([CHR 0x22] @ ''.'')],
              Text ([CHR 0x0A] @ ''.   You can set raise_deep_exceptions=True '' @
                    ''to help identify the source.'')]))"
    by (rule parse_negate_explicit[OF refl])
qed

theorem boolean_flag_negate_witness:
  "startswith (hd [''--verbose'']) ''-'' \<and>
   is_flag_loop ([''--number=3''] @ ''--negate'' # [''--verbose'']) ''negate'' None \<and>
   py_lower ''TRUE'' = ''true'' \<and> py_lower ''No'' = ''no'' \<and>
   parse_arg_string_and_remaining maybe_negate_parser [''--number=3'', ''--negate=TRUE'']
     False = Inr ([(''number'', VInt 3), (''negate'', VBool True)], []) \<and>
   parse_arg_string_and_remaining maybe_negate_parser [''--number=3'', ''--negate=No'']
     False = Inr ([(''number'', VInt 3), (''negate'', VBool False)], []) \<and>
   isl (parse_arg_string_and_remaining maybe_negate_parser [''--number=3'', ''--negate=2'']
     False) \<and>
   str2bool ''2'' =
     Inl (Raise ArgumentTypeError
       [Text (''Boolean value expected, but got '' @ [CHR 0x22]), Text ''2'',
        Text ([CHR 0x22] @ ''.'')])"
proof -
  have l: "py_lower ''TRUE'' = ''true''" "py_lower ''No'' = ''no''" "py_lower ''2'' = ''2''"
    by code_simp+
  from boolean_flag_negate[of "''TRUE''" "[''--verbose'']" "[''--number=3'']"]
    boolean_flag_negate[of "''No''" "[]" "[]"]
    boolean_flag_negate[of "''2''" "[]" "[]"]
  show ?thesis
    by (simp add: l startswith_def lstrip_def)
qed

end
